theory Spec2Isabelle
  imports Complex_Main "HOL-Library.AList"
begin

section \<open>The learning adapter (backend/memory/learning/vanna_learning_adapter.py)\<close>

text \<open>
  Conventions of the embedding.
  \<^item> Python floats are modelled as \<^typ>\<open>real\<close>, Python ints as \<^typ>\<open>int\<close>.
  \<^item> A \<open>datetime\<close> (and the ISO string the code stores for it) is the number of
    microseconds since the epoch, an \<^typ>\<open>int\<close>; \<open>timedelta(days=d)\<close> is
    \<open>d * 86400000000\<close>. Every operation receives the reading \<open>now\<close> of the clock.
  \<^item> A Python \<open>dict\<close> is an association list in insertion order; assigning a key
    is \<^const>\<open>AList.update\<close> (in place when the key is there, appended otherwise) and
    \<open>del d[k]\<close> is \<^const>\<open>AList.delete\<close>. A mutation of an object held by the dict
    is a change of the entry under its key.
  \<^item> \<open>uuid.uuid4()\<close> is an input of the operation that calls it.
  \<^item> scikit-learn is not part of the repository. Its operations are the fields of
    a record that every function of the adapter takes as first argument.
  \<^item> Writing the JSON files changes nothing in memory and is left out.
  \<^item> Field names that clash with HOL constants or with another record are
    prefixed: \<open>lp_id\<close> and \<open>fr_id\<close> are the two \<open>id\<close> fields, \<open>fr_context\<close> is
    \<open>FeedbackRecord.context\<close>. A leading underscore of a private method is dropped.
\<close>

record LearningPattern =
  lp_id :: string
  pattern_type :: string
  input_context :: string
  successful_output :: string
  success_score :: real
  brain_region :: string
  metadata :: "(string \<times> string) list"
  created_at :: int
  usage_count :: int
  last_used :: "int option"
  effectiveness_score :: real

record FeedbackRecord =
  fr_id :: string
  pattern_id :: string
  user_id :: string
  feedback_type :: string
  original_output :: string
  corrected_output :: "string option"
  feedback_score :: real
  timestamp :: int
  fr_context :: "(string \<times> string) list"

text \<open>
  The part of scikit-learn the adapter calls. \<open>fit_default\<close> is
  \<open>TfidfVectorizer().fit\<close>, \<open>fit_english\<close> is
  \<open>TfidfVectorizer(max_features=1000, stop_words='english').fit\<close>; both give
  \<open>None\<close> when the library raises (an empty vocabulary). \<open>transform\<close> maps one
  text to its vector under a fitted vectorizer and \<open>cosine\<close> is
  \<open>cosine_similarity\<close> of two vectors.
\<close>

record ('v, 'w) sklearn =
  fit_default :: "string list \<Rightarrow> 'v option"
  fit_english :: "string list \<Rightarrow> 'v option"
  transform :: "'v \<Rightarrow> string \<Rightarrow> 'w"
  cosine :: "'w \<Rightarrow> 'w \<Rightarrow> real"

record ('v, 'w) VannaLearningAdapter =
  min_success_score :: real
  pattern_decay_days :: int
  patterns :: "(string \<times> LearningPattern) list"
  feedback_records :: "(string \<times> FeedbackRecord) list"
  vectorizer :: "'v option"
  pattern_vectors :: "'w list option"

text \<open>Python truthiness of an optional string: \<open>None\<close> and \<open>''\<close> are false.\<close>

fun truthy :: "string option \<Rightarrow> bool" where
  "truthy None = False"
| "truthy (Some s) = (s \<noteq> [])"

text \<open>\<open>xs[:n]\<close> for a Python int \<open>n\<close>: a negative \<open>n\<close> counts from the end.\<close>

definition slice_to :: "int \<Rightarrow> 'a list \<Rightarrow> 'a list" where
  "slice_to n xs = (if 0 \<le> n then take (nat n) xs else take (nat (int (length xs) + n)) xs)"

text \<open>The change of the object stored under key \<open>k\<close>.\<close>

definition modify :: "string \<Rightarrow> ('a \<Rightarrow> 'a) \<Rightarrow> (string \<times> 'a) list \<Rightarrow> (string \<times> 'a) list" where
  "modify k f ps = map (\<lambda>(k', p). if k' = k then (k', f p) else (k', p)) ps"

definition calculate_text_similarity :: "('v, 'w) sklearn \<Rightarrow> string \<Rightarrow> string \<Rightarrow> real" where
  "calculate_text_similarity L text1 text2 =
     (case fit_default L [text1, text2] of
        None \<Rightarrow> 0
      | Some v \<Rightarrow> cosine L (transform L v text1) (transform L v text2))"

definition find_similar_pattern ::
  "('v, 'w) sklearn \<Rightarrow> ('v, 'w) VannaLearningAdapter \<Rightarrow> string \<Rightarrow> string \<Rightarrow> string
     \<Rightarrow> (string \<times> LearningPattern) option" where
  "find_similar_pattern L s ictx ptype region =
     find (\<lambda>(k, p). pattern_type p = ptype \<and> brain_region p = region
                     \<and> calculate_text_similarity L ictx (input_context p) > 0.8)
          (patterns s)"

definition update_pattern_vectors ::
  "('v, 'w) sklearn \<Rightarrow> ('v, 'w) VannaLearningAdapter \<Rightarrow> ('v, 'w) VannaLearningAdapter" where
  "update_pattern_vectors L s =
     (if patterns s = [] then s
      else case vectorizer s of
             None \<Rightarrow> s
           | Some v \<Rightarrow>
               s\<lparr>pattern_vectors := Some (map (\<lambda>(k, p). transform L v (input_context p)) (patterns s))\<rparr>)"

text \<open>\<open>_update_vectorizer\<close>: a \<open>fit\<close> that raises leaves the vectorizer
  unfitted (it discards its idf weights before it counts the terms), and the
  pattern vectors as they were; a later \<open>transform\<close> then raises.\<close>

definition update_vectorizer ::
  "('v, 'w) sklearn \<Rightarrow> ('v, 'w) VannaLearningAdapter \<Rightarrow> ('v, 'w) VannaLearningAdapter" where
  "update_vectorizer L s =
     (if patterns s = [] then s
      else case fit_english L (map (\<lambda>(k, p). input_context p) (patterns s)) of
             None \<Rightarrow> s\<lparr>vectorizer := None\<rparr>
           | Some v \<Rightarrow> update_pattern_vectors L (s\<lparr>vectorizer := Some v\<rparr>))"

text \<open>
  \<open>learn_from_interaction\<close>: \<open>new_id\<close> is the uuid drawn on the creation path.
  The result is the returned pattern id (\<open>None\<close> below the threshold) and the
  adapter after the call.
\<close>

definition reuse :: "int \<Rightarrow> real \<Rightarrow> LearningPattern \<Rightarrow> LearningPattern" where
  "reuse now score p =
     p\<lparr>usage_count := usage_count p + 1,
       last_used := Some now,
       effectiveness_score := effectiveness_score p * 0.9 + score * 0.1\<rparr>"

definition learn_from_interaction ::
  "('v, 'w) sklearn \<Rightarrow> string \<Rightarrow> int \<Rightarrow> ('v, 'w) VannaLearningAdapter
     \<Rightarrow> string \<Rightarrow> string \<Rightarrow> real \<Rightarrow> string \<Rightarrow> string \<Rightarrow> (string \<times> string) list option
     \<Rightarrow> string option \<times> ('v, 'w) VannaLearningAdapter" where
  "learn_from_interaction L new_id now s ictx output_result score region ptype meta =
     (if score < min_success_score s then (None, s)
      else case find_similar_pattern L s ictx ptype region of
             Some (k, similar) \<Rightarrow>
               (Some (lp_id similar), s\<lparr>patterns := modify k (reuse now score) (patterns s)\<rparr>)
           | None \<Rightarrow>
               (Some new_id,
                update_vectorizer L
                  (s\<lparr>patterns :=
                       AList.update new_id
                         \<lparr>lp_id = new_id, pattern_type = ptype, input_context = ictx,
                          successful_output = output_result, success_score = score,
                          brain_region = region,
                          metadata = (case meta of None \<Rightarrow> [] | Some m \<Rightarrow> m),
                          created_at = now, usage_count = 1, last_used = Some now,
                          effectiveness_score = score\<rparr>
                         (patterns s)\<rparr>)))"

text \<open>
  \<open>record_feedback\<close>: \<open>feedback_id\<close> is the uuid of the record, \<open>new_id\<close> the
  uuid that the nested \<open>learn_from_interaction\<close> draws when it creates a pattern.
  The record is stored before the pattern is looked up.
\<close>

definition record_feedback ::
  "('v, 'w) sklearn \<Rightarrow> string \<Rightarrow> string \<Rightarrow> int \<Rightarrow> ('v, 'w) VannaLearningAdapter
     \<Rightarrow> string \<Rightarrow> string \<Rightarrow> string \<Rightarrow> real \<Rightarrow> string \<Rightarrow> string option
     \<Rightarrow> (string \<times> string) list option
     \<Rightarrow> string option \<times> ('v, 'w) VannaLearningAdapter" where
  "record_feedback L feedback_id new_id now s pid uid ftype fscore orig corrected ctx =
     (let s1 = s\<lparr>feedback_records :=
                   AList.update feedback_id
                     \<lparr>fr_id = feedback_id, pattern_id = pid, user_id = uid,
                      feedback_type = ftype, original_output = orig,
                      corrected_output = corrected, feedback_score = fscore,
                      timestamp = now,
                      fr_context = (case ctx of None \<Rightarrow> [] | Some c \<Rightarrow> c)\<rparr>
                     (feedback_records s)\<rparr>;
          s2 = (case map_of (patterns s1) pid of
                  None \<Rightarrow> s1
                | Some pattern \<Rightarrow>
                    (let s' = s1\<lparr>patterns :=
                                  modify pid
                                    (\<lambda>p. p\<lparr>effectiveness_score :=
                                               effectiveness_score p * 0.8
                                               + (fscore + 1.0) / 2.0 * 0.2\<rparr>)
                                    (patterns s1)\<rparr>
                     in case corrected of
                          None \<Rightarrow> s'
                        | Some c \<Rightarrow>
                            if c \<noteq> [] \<and> fscore > 0
                            then snd (learn_from_interaction L new_id now s'
                                        (input_context pattern) c (min 1.0 (fscore + 0.5))
                                        (brain_region pattern) (pattern_type pattern)
                                        (Some [(''source'', ''user_correction''),
                                               (''original_pattern'', pid)]))
                            else s'))
      in (Some feedback_id, s2))"

text \<open>\<open>cleanup_old_patterns\<close>: the ids to remove are collected first, then deleted
  one by one; the index is rebuilt only when something was removed.\<close>

definition removable :: "int \<Rightarrow> LearningPattern \<Rightarrow> bool" where
  "removable cutoff_date p =
     (created_at p < cutoff_date \<and> effectiveness_score p < 0.5 \<and> usage_count p < 3)"

definition cleanup_old_patterns ::
  "('v, 'w) sklearn \<Rightarrow> int \<Rightarrow> ('v, 'w) VannaLearningAdapter \<Rightarrow> ('v, 'w) VannaLearningAdapter" where
  "cleanup_old_patterns L now s =
     (let cutoff_date = now - pattern_decay_days s * 86400000000;
          patterns_to_remove =
            map fst (filter (\<lambda>(k, p). removable cutoff_date p) (patterns s));
          s1 = s\<lparr>patterns := foldl (\<lambda>ps k. AList.delete k ps) (patterns s) patterns_to_remove\<rparr>
      in if patterns_to_remove \<noteq> [] then update_vectorizer L s1 else s1)"

text \<open>
  Python's \<open>str.lower\<close> and \<open>str.split()\<close>. A character is a code point below
  256: the capitals A to Z and the Latin-1 capitals (0xC0 to 0xDE, without the
  multiplication sign 0xD7) are mapped to the letter 32 places up, and the text is
  cut at runs of white space (the characters for which \<open>str.isspace\<close> holds).
  (The names carry the prefix \<open>str_\<close>.)
\<close>

definition lower_char :: "char \<Rightarrow> char" where
  "lower_char c =
     (let n = (of_char c :: nat)
      in if (65 \<le> n \<and> n \<le> 90) \<or> (192 \<le> n \<and> n \<le> 214) \<or> (216 \<le> n \<and> n \<le> 222)
         then char_of (n + 32) else c)"

definition str_lower :: "string \<Rightarrow> string" where
  "str_lower s = map lower_char s"

definition is_space :: "char \<Rightarrow> bool" where
  "is_space c = (c \<in> set [CHR '' '', CHR 0x09, CHR 0x0A, CHR 0x0B, CHR 0x0C, CHR 0x0D,
                            CHR 0x1C, CHR 0x1D, CHR 0x1E, CHR 0x1F, CHR 0x85, CHR 0xA0])"

fun split_acc :: "string \<Rightarrow> string \<Rightarrow> string list" where
  "split_acc w [] = (if w = [] then [] else [w])"
| "split_acc w (c # cs) =
     (if is_space c then (if w = [] then split_acc [] cs else w # split_acc [] cs)
      else split_acc (w @ [c]) cs)"

definition str_split :: "string \<Rightarrow> string list" where
  "str_split s = split_acc [] s"

text \<open>\<open>list.sort(key=lambda x: x[1], reverse=True)\<close>: descending in the score,
  and stable (entries of equal score keep their order).\<close>

definition sort_desc :: "('a \<times> real) list \<Rightarrow> ('a \<times> real) list" where
  "sort_desc xs = sort_key (\<lambda>x. - snd x) xs"

definition text_scores :: "string \<Rightarrow> LearningPattern list \<Rightarrow> (LearningPattern \<times> real) list" where
  "text_scores query ps =
     (let query_words = set (str_split (str_lower query)) in
      concat (map (\<lambda>p.
        let pattern_words = set (str_split (str_lower (input_context p)));
            overlap = card (query_words \<inter> pattern_words);
            total_words = card (query_words \<union> pattern_words)
        in if total_words > 0
           then [(p, real overlap / real total_words * 0.7 + effectiveness_score p * 0.3)]
           else []) ps))"

definition simple_text_matching :: "string \<Rightarrow> LearningPattern list \<Rightarrow> int \<Rightarrow> LearningPattern list" where
  "simple_text_matching query ps limit = map fst (slice_to limit (sort_desc (text_scores query ps)))"

text \<open>
  \<open>retrieve_relevant_patterns\<close>. The similarities are those of the query to the
  rows of \<open>pattern_vectors\<close>, one row per stored pattern at the time the index was
  built; the loop reads row \<open>i\<close> for the \<open>i\<close>-th candidate that passed the filters.
  An unfitted vectorizer raises in \<open>transform\<close>, which the handler turns into \<open>[]\<close>.
\<close>

definition candidate_patterns ::
  "('v, 'w) VannaLearningAdapter \<Rightarrow> string option \<Rightarrow> string option \<Rightarrow> LearningPattern list" where
  "candidate_patterns s ptype region =
     filter (\<lambda>p. \<not> (truthy ptype \<and> Some (pattern_type p) \<noteq> ptype)
                \<and> \<not> (truthy region \<and> Some (brain_region p) \<noteq> region))
            (map snd (patterns s))"

definition vector_scores ::
  "real list \<Rightarrow> LearningPattern list \<Rightarrow> (LearningPattern \<times> real) list" where
  "vector_scores similarities cands =
     map (\<lambda>(i, p). (p, similarities ! i * 0.7 + effectiveness_score p * 0.3))
         (filter (\<lambda>(i, p). i < length similarities) (enumerate 0 cands))"

definition retrieve_relevant_patterns ::
  "('v, 'w) sklearn \<Rightarrow> ('v, 'w) VannaLearningAdapter \<Rightarrow> string \<Rightarrow> string option
     \<Rightarrow> string option \<Rightarrow> int \<Rightarrow> LearningPattern list" where
  "retrieve_relevant_patterns L s query ptype region limit =
     (if patterns s = [] then []
      else let cands = candidate_patterns s ptype region in
        if cands = [] then []
        else case pattern_vectors s of
               None \<Rightarrow> simple_text_matching query cands limit
             | Some vecs \<Rightarrow>
                 (case vectorizer s of
                    None \<Rightarrow> []
                  | Some v \<Rightarrow>
                      (let similarities = map (cosine L (transform L v query)) vecs
                       in map fst (slice_to limit (sort_desc (vector_scores similarities cands))))))"

text \<open>\<open>get_learning_stats()['total_patterns']\<close>.\<close>

definition total_patterns :: "('v, 'w) VannaLearningAdapter \<Rightarrow> nat" where
  "total_patterns s = length (patterns s)"

text \<open>A stand-in for the library, used to run the model on concrete stores: a
  vectorizer is the corpus it was fitted on, a vector is the text itself, and two
  vectors have similarity 1 when they are equal and 0 otherwise.\<close>

definition exact_fit :: "string list \<Rightarrow> string list option" where
  "exact_fit texts = Some texts"

definition exact_transform :: "string list \<Rightarrow> string \<Rightarrow> string" where
  "exact_transform v t = t"

definition exact_cosine :: "string \<Rightarrow> string \<Rightarrow> real" where
  "exact_cosine a b = (if a = b then 1 else 0)"

definition exact_lib :: "(string list, string) sklearn" where
  "exact_lib = \<lparr>fit_default = exact_fit, fit_english = exact_fit,
                transform = exact_transform, cosine = exact_cosine\<rparr>"

definition empty_adapter :: "(string list, string) VannaLearningAdapter" where
  "empty_adapter = \<lparr>min_success_score = 0.7, pattern_decay_days = 30, patterns = [],
                    feedback_records = [], vectorizer = None, pattern_vectors = None\<rparr>"

text \<open>Two stored patterns that differ in their \<open>usage_count\<close> only, created 69 days
  after the epoch with effectiveness 0.4.\<close>

definition old_pattern :: "string \<Rightarrow> int \<Rightarrow> LearningPattern" where
  "old_pattern k n =
     \<lparr>lp_id = k, pattern_type = ''conversation'', input_context = ''hello world'',
      successful_output = ''hi'', success_score = 0.9, brain_region = ''FRONTAL_LOBE'',
      metadata = [], created_at = 69 * 86400000000, usage_count = n, last_used = None,
      effectiveness_score = 0.4\<rparr>"

definition old_store :: "(string list, string) VannaLearningAdapter" where
  "old_store = empty_adapter\<lparr>patterns := [(''p1'', old_pattern ''p1'' 1), (''p5'', old_pattern ''p5'' 5)]\<rparr>"









text \<open>
  The scores are computed in double precision, and the outcome of the sort depends
  on the rounding: two scores that are equal as real numbers may differ as
  doubles. The functions of the retrieval are therefore given a second time, with
  the arithmetic of the scores as a parameter: \<open>word_ratio\<close> is the division
  \<open>overlap / total_words\<close> and \<open>combined\<close> is
  \<open>similarity * 0.7 + effectiveness_score * 0.3\<close>, each as the machine evaluates
  it (a score is a finite double, and a double is the real number it denotes).
  \<open>real_arith\<close> is the exact arithmetic, with which these functions are the
  ones above.
\<close>

record arith =
  word_ratio :: "nat \<Rightarrow> nat \<Rightarrow> real"
  combined :: "real \<Rightarrow> real \<Rightarrow> real"

definition real_arith :: arith where
  "real_arith = \<lparr>word_ratio = (\<lambda>a b. real a / real b),
                 combined = (\<lambda>similarity effectiveness. similarity * 0.7 + effectiveness * 0.3)\<rparr>"

definition text_scores_in ::
  "arith \<Rightarrow> string \<Rightarrow> LearningPattern list \<Rightarrow> (LearningPattern \<times> real) list" where
  "text_scores_in A query ps =
     (let query_words = set (str_split (str_lower query)) in
      concat (map (\<lambda>p.
        let pattern_words = set (str_split (str_lower (input_context p)));
            overlap = card (query_words \<inter> pattern_words);
            total_words = card (query_words \<union> pattern_words)
        in if total_words > 0
           then [(p, combined A (word_ratio A overlap total_words) (effectiveness_score p))]
           else []) ps))"

definition vector_scores_in ::
  "arith \<Rightarrow> real list \<Rightarrow> LearningPattern list \<Rightarrow> (LearningPattern \<times> real) list" where
  "vector_scores_in A similarities cands =
     map (\<lambda>(i, p). (p, combined A (similarities ! i) (effectiveness_score p)))
         (filter (\<lambda>(i, p). i < length similarities) (enumerate 0 cands))"

definition retrieve_relevant_patterns_in ::
  "arith \<Rightarrow> ('v, 'w) sklearn \<Rightarrow> ('v, 'w) VannaLearningAdapter \<Rightarrow> string \<Rightarrow> string option
     \<Rightarrow> string option \<Rightarrow> int \<Rightarrow> LearningPattern list" where
  "retrieve_relevant_patterns_in A L s query ptype region limit =
     (if patterns s = [] then []
      else let cands = candidate_patterns s ptype region in
        if cands = [] then []
        else case pattern_vectors s of
               None \<Rightarrow> map fst (slice_to limit (sort_desc (text_scores_in A query cands)))
             | Some vecs \<Rightarrow>
                 (case vectorizer s of
                    None \<Rightarrow> []
                  | Some v \<Rightarrow>
                      (let similarities = map (cosine L (transform L v query)) vecs
                       in map fst (slice_to limit
                                     (sort_desc (vector_scores_in A similarities cands))))))"

text \<open>
  The combined score of a pattern, in the words of the specification: the weighted
  sum of the similarity of the query to the pattern's own \<open>input_context\<close> (the
  cosine under the fitted vectorizer when the adapter has pattern vectors, the
  overlap of the lower-cased word sets when it has none) and of the pattern's
  \<open>effectiveness_score\<close>.
\<close>

definition word_overlap :: "arith \<Rightarrow> string \<Rightarrow> string \<Rightarrow> real" where
  "word_overlap A a b =
     word_ratio A (card (set (str_split (str_lower a)) \<inter> set (str_split (str_lower b))))
                (card (set (str_split (str_lower a)) \<union> set (str_split (str_lower b))))"

definition own_score ::
  "arith \<Rightarrow> ('v, 'w) sklearn \<Rightarrow> ('v, 'w) VannaLearningAdapter \<Rightarrow> string \<Rightarrow> LearningPattern \<Rightarrow> real" where
  "own_score A L s query p =
     combined A
       (case pattern_vectors s of
          None \<Rightarrow> word_overlap A query (input_context p)
        | Some vecs \<Rightarrow>
            (case vectorizer s of
               None \<Rightarrow> 0
             | Some v \<Rightarrow> cosine L (transform L v query) (transform L v (input_context p))))
       (effectiveness_score p)"

text \<open>
  The stores and queries for which the retrieval scores every candidate on its own
  context: without pattern vectors, a query with at least one word (a candidate
  is dropped only when neither the query nor its context has a word); with
  pattern vectors, no filter and the vectors of the current store, in its order.
\<close>

definition scores_own_context ::
  "('v, 'w) sklearn \<Rightarrow> ('v, 'w) VannaLearningAdapter \<Rightarrow> string \<Rightarrow> string option
     \<Rightarrow> string option \<Rightarrow> bool" where
  "scores_own_context L s query ptype region =
     (case pattern_vectors s of
        None \<Rightarrow> str_split (str_lower query) \<noteq> []
      | Some vecs \<Rightarrow>
          (case vectorizer s of
             None \<Rightarrow> False
           | Some v \<Rightarrow>
               (truthy ptype = False) \<and> (truthy region = False)
               \<and> vecs = map (\<lambda>(k, p). transform L v (input_context p)) (patterns s)))"

text \<open>
  The retrieval as the specification words it, for comparison with the code:
  filter the candidates, rank each by 0.7 times the cosine similarity of the query
  and the candidate's own \<open>input_context\<close> plus 0.3 times its
  \<open>effectiveness_score\<close>, return the top \<open>limit\<close>.
\<close>

definition specified_ranking ::
  "('v, 'w) sklearn \<Rightarrow> ('v, 'w) VannaLearningAdapter \<Rightarrow> string \<Rightarrow> string option
     \<Rightarrow> string option \<Rightarrow> int \<Rightarrow> LearningPattern list" where
  "specified_ranking L s query ptype region limit =
     (case vectorizer s of
        None \<Rightarrow> []
      | Some v \<Rightarrow>
          map fst (slice_to limit (sort_desc
            (map (\<lambda>p. (p, cosine L (transform L v query) (transform L v (input_context p)) * 0.7
                           + effectiveness_score p * 0.3))
                 (candidate_patterns s ptype region)))))"

text \<open>Two patterns of equal text and effectiveness, with usage counts 1 and 5, and
  the store that three successful interactions build from the empty adapter.\<close>

definition tied_pattern :: "string \<Rightarrow> string \<Rightarrow> int \<Rightarrow> LearningPattern" where
  "tied_pattern k ptype n =
     \<lparr>lp_id = k, pattern_type = ptype, input_context = ''hello world'',
      successful_output = ''hi'', success_score = 0.9, brain_region = ''FRONTAL_LOBE'',
      metadata = [], created_at = 0, usage_count = n, last_used = Some 0,
      effectiveness_score = 0.9\<rparr>"

definition tied_store :: "(string list, string) VannaLearningAdapter" where
  "tied_store = empty_adapter
     \<lparr>patterns := [(''A'', tied_pattern ''A'' ''conversation'' 1),
                   (''B'', tied_pattern ''B'' ''tool_usage'' 5)],
      vectorizer := Some [''hello world'', ''hello world''],
      pattern_vectors := Some [''hello world'', ''hello world'']\<rparr>"

definition indexed_store :: "(string list, string) VannaLearningAdapter" where
  "indexed_store =
     snd (learn_from_interaction exact_lib ''C'' 3
       (snd (learn_from_interaction exact_lib ''B'' 2
         (snd (learn_from_interaction exact_lib ''A'' 1 empty_adapter
                 ''alpha'' ''first'' 0.9 ''FRONTAL_LOBE'' ''conversation'' None))
         ''beta'' ''second'' 0.9 ''FRONTAL_LOBE'' ''tool_usage'' None))
       ''gamma'' ''third'' 0.9 ''FRONTAL_LOBE'' ''tool_usage'' None)"

section \<open>The conversation manager (backend/memory/conversation/rasa_conversation_manager.py)\<close>

text \<open>
  Further conventions.
  \<^item> A value of the open map \<open>flow_variables\<close> is an int (\<open>current_step\<close>), the text
    of a message (an \<open>input_collection\<close> step), the ISO string of a datetime
    (\<open>flow_start_time\<close>, kept as the datetime it denotes) or a float
    (\<open>flow_duration\<close>, in seconds). The text of a message is taken not to parse as
    an ISO date.
  \<^item> A result dictionary is a record of optional keys, and the text of an exception
    is the exception.
  \<^item> Python's \<open>str\<close> of a flow variable is a parameter \<open>py_str\<close> of the functions
    that render a template.
  \<^item> A context is an object shared with the \<open>sessions\<close> dict: what a function has
    changed before it raises stays changed. Each function returns the context as
    it leaves it.
  \<^item> Clashing field names are prefixed: \<open>ctx_\<close> for \<open>ConversationContext\<close>,
    \<open>cf_\<close> for \<open>ConversationFlow\<close>, \<open>ag_\<close> for \<open>AgentCapability\<close>, \<open>msg_\<close> for
    an entry of the history.
\<close>

datatype ConversationState =
  IDLE | LISTENING | PROCESSING | WAITING_FOR_INPUT | AGENT_HANDOFF | FLOW_EXECUTION
  | MEMORY_RETRIEVAL | COMPLETED | ERROR

datatype FlowType =
  SIMPLE_QA | MEMORY_INTERACTION | MULTI_STEP_TASK | AGENT_COORDINATION | TOOL_USAGE
  | LEARNING_FEEDBACK

datatype pyval = PInt int | PStr string | PTime int | PFloat real

datatype py_error =
  SessionNotFound string | FlowNotFound string | UnknownStepType string
  | AgentNotFound "string option" | TypeError | ValueError | IndexError | KeyError string

record message_entry =
  msg_role :: string
  msg_content :: string
  msg_timestamp :: int
  msg_brain_region :: string

record memory_result =
  mr_query :: string
  mr_brain_region :: string
  mr_results :: "string list"
  mr_timestamp :: int

record agent_result =
  ar_agent_id :: string
  ar_agent_name :: string
  ar_request :: string
  ar_response :: string
  ar_status :: string
  ar_timestamp :: int

record ConversationContext =
  session_id :: string
  ctx_user_id :: string
  current_state :: ConversationState
  current_flow :: "string option"
  flow_type :: "FlowType option"
  ctx_brain_region :: string
  memory_context :: "(string \<times> memory_result) list"
  agent_context :: "(string \<times> agent_result) list"
  flow_variables :: "(string \<times> pyval) list"
  conversation_history :: "message_entry list"
  ctx_created_at :: int
  updated_at :: int
  ctx_metadata :: "(string \<times> string) list"

record step =
  step_type :: "string option"
  step_data :: "(string \<times> string) list"

record ConversationFlow =
  flow_id :: string
  flow_name :: string
  cf_flow_type :: FlowType
  description :: string
  trigger_patterns :: "string list"
  brain_regions :: "string list"
  steps :: "step list"
  required_context :: "string list"
  expected_duration :: int
  success_criteria :: "(string \<times> bool) list"
  fallback_actions :: "string list"
  cf_metadata :: "(string \<times> string) list"

record AgentCapability =
  agent_id :: string
  agent_name :: string
  ag_description :: string
  input_modes :: "string list"
  output_modes :: "string list"
  ag_brain_regions :: "string list"
  endpoint_url :: "string option"
  status :: string

record RasaConversationManager =
  sessions :: "(string \<times> ConversationContext) list"
  flows :: "(string \<times> ConversationFlow) list"
  agents :: "(string \<times> AgentCapability) list"
  session_timeout :: int
  max_conversation_history :: int
  default_brain_region :: string

record result =
  success :: bool
  error :: "py_error option"
  next_state :: "ConversationState option"
  step_completed :: "bool option"
  flow_completed :: "bool option"
  response :: "string option"
  res_memory_result :: "memory_result option"
  res_agent_result :: "agent_result option"
  condition_result :: "bool option"
  collected_input :: "(string \<times> string) option"
  res_flow_id :: "string option"
  res_flow_name :: "string option"
  duration :: "pyval option"

definition no_result :: result where
  "no_result = \<lparr>success = False, error = None, next_state = None, step_completed = None,
                 flow_completed = None, response = None, res_memory_result = None,
                 res_agent_result = None, condition_result = None, collected_input = None,
                 res_flow_id = None, res_flow_name = None, duration = None\<rparr>"

text \<open>\<open>xs[i:]\<close> for a Python int \<open>i\<close>: a negative \<open>i\<close> counts from the end, and
  \<open>xs[-0:]\<close> is \<open>xs[0:]\<close>, the whole list.\<close>

definition slice_from :: "int \<Rightarrow> 'a list \<Rightarrow> 'a list" where
  "slice_from i xs =
     (if i < 0 then drop (nat (max 0 (int (length xs) + i))) xs else drop (nat i) xs)"

text \<open>\<open>d.get(k, default)\<close>.\<close>

definition get_or :: "('k \<times> 'v) list \<Rightarrow> 'k \<Rightarrow> 'v \<Rightarrow> 'v" where
  "get_or d k dflt = (case map_of d k of None \<Rightarrow> dflt | Some v \<Rightarrow> v)"

text \<open>\<open>a in b\<close> for two strings, and \<open>s.replace(old, new)\<close> for a non-empty
  \<open>old\<close>: the occurrences are replaced from the left and do not overlap.\<close>

fun contains :: "string \<Rightarrow> string \<Rightarrow> bool" where
  "contains a [] = (a = [])"
| "contains a (c # cs) = (take (length a) (c # cs) = a \<or> contains a cs)"

fun replace_go :: "nat \<Rightarrow> string \<Rightarrow> string \<Rightarrow> string \<Rightarrow> string" where
  "replace_go skip old new [] = []"
| "replace_go skip old new (c # cs) =
     (if 0 < skip then replace_go (skip - 1) old new cs
      else if take (length old) (c # cs) = old then new @ replace_go (length old - 1) old new cs
      else c # replace_go 0 old new cs)"

definition replace :: "string \<Rightarrow> string \<Rightarrow> string \<Rightarrow> string" where
  "replace old new s = replace_go 0 old new s"

definition add_to_conversation_history ::
  "RasaConversationManager \<Rightarrow> int \<Rightarrow> ConversationContext \<Rightarrow> string \<Rightarrow> string
     \<Rightarrow> ConversationContext" where
  "add_to_conversation_history mgr now ctx r c =
     (let history = conversation_history ctx @
                      [\<lparr>msg_role = r, msg_content = c, msg_timestamp = now,
                        msg_brain_region = ctx_brain_region ctx\<rparr>]
      in ctx\<lparr>conversation_history :=
               (if int (length history) > max_conversation_history mgr
                then slice_from (- max_conversation_history mgr) history
                else history)\<rparr>)"

text \<open>\<open>_determine_conversation_flow\<close>: the score of one flow, and the loop over
  the flows that keeps the best one above the threshold.\<close>

definition flow_score :: "ConversationContext \<Rightarrow> string \<Rightarrow> ConversationFlow \<Rightarrow> real" where
  "flow_score ctx message_lower flow =
     real (length (filter (\<lambda>p. contains (str_lower p) message_lower) (trigger_patterns flow))) * 1.0
     + (if ctx_brain_region ctx \<in> set (brain_regions flow) then 0.5 else 0)
     + (if list_all (\<lambda>req. req \<in> fst ` set (flow_variables ctx)) (required_context flow)
        then 0.3 else 0)"

definition determine_conversation_flow ::
  "RasaConversationManager \<Rightarrow> ConversationContext \<Rightarrow> string \<Rightarrow> string option \<times> real" where
  "determine_conversation_flow mgr ctx message =
     foldl (\<lambda>(best_flow, best_score) (fid, flow).
              let score = flow_score ctx (str_lower message) flow
              in if score > best_score \<and> score > 0.5 then (Some fid, score)
                 else (best_flow, best_score))
           (None, 0) (flows mgr)"

definition execute_message_step ::
  "(pyval \<Rightarrow> string) \<Rightarrow> RasaConversationManager \<Rightarrow> int \<Rightarrow> ConversationContext
     \<Rightarrow> (string \<times> string) list \<Rightarrow> string \<Rightarrow> ConversationContext \<times> result" where
  "execute_message_step py_str mgr now ctx data message =
     (let response_template = get_or data ''template'' ''I understand.'';
          resp = foldl (\<lambda>r (var, v). replace (''{'' @ var @ ''}'') (py_str v) r)
                       response_template (flow_variables ctx)
      in (add_to_conversation_history mgr now ctx ''assistant'' resp,
          no_result\<lparr>success := True, response := Some resp, step_completed := Some True,
                    next_state := Some WAITING_FOR_INPUT\<rparr>))"

definition execute_memory_step ::
  "int \<Rightarrow> ConversationContext \<Rightarrow> (string \<times> string) list \<Rightarrow> string
     \<Rightarrow> ConversationContext \<times> result" where
  "execute_memory_step now ctx data message =
     (let mres = \<lparr>mr_query = get_or data ''query'' message,
                  mr_brain_region = get_or data ''brain_region'' (ctx_brain_region ctx),
                  mr_results = [], mr_timestamp = now\<rparr>
      in (ctx\<lparr>memory_context := AList.update ''last_query'' mres (memory_context ctx)\<rparr>,
          no_result\<lparr>success := True, res_memory_result := Some mres,
                    step_completed := Some True, next_state := Some PROCESSING\<rparr>))"

definition execute_agent_step ::
  "RasaConversationManager \<Rightarrow> int \<Rightarrow> ConversationContext \<Rightarrow> (string \<times> string) list \<Rightarrow> string
     \<Rightarrow> ConversationContext \<times> result" where
  "execute_agent_step mgr now ctx data message =
     (case map_of data ''agent_id'' of
        None \<Rightarrow> (ctx, no_result\<lparr>error := Some (AgentNotFound None), step_completed := Some False\<rparr>)
      | Some aid \<Rightarrow>
          (case (if aid = [] then None else map_of (agents mgr) aid) of
             None \<Rightarrow> (ctx, no_result\<lparr>error := Some (AgentNotFound (Some aid)),
                                     step_completed := Some False\<rparr>)
           | Some agent \<Rightarrow>
               (let ares = \<lparr>ar_agent_id = aid, ar_agent_name = agent_name agent,
                            ar_request = message,
                            ar_response = ''Agent '' @ agent_name agent @ '' processed: '' @ message,
                            ar_status = ''completed'', ar_timestamp = now\<rparr>
                in (ctx\<lparr>agent_context := AList.update aid ares (agent_context ctx)\<rparr>,
                    no_result\<lparr>success := True, res_agent_result := Some ares,
                              step_completed := Some True, next_state := Some PROCESSING\<rparr>))))"

definition evaluate_condition :: "string \<Rightarrow> ConversationContext \<Rightarrow> string \<Rightarrow> bool" where
  "evaluate_condition condition ctx message =
     (if contains ''has_memory'' condition then memory_context ctx \<noteq> []
      else if contains ''message_contains'' condition then True
      else True)"

definition execute_condition_step ::
  "ConversationContext \<Rightarrow> (string \<times> string) list \<Rightarrow> string \<Rightarrow> ConversationContext \<times> result" where
  "execute_condition_step ctx data message =
     (let condition = get_or data ''condition'' ''true'';
          res = (if condition = ''true'' then True
                 else if condition = ''false'' then False
                 else evaluate_condition condition ctx message)
      in (ctx, no_result\<lparr>success := True, condition_result := Some res,
                         step_completed := Some True, next_state := Some PROCESSING\<rparr>))"

definition execute_input_step ::
  "ConversationContext \<Rightarrow> (string \<times> string) list \<Rightarrow> string \<Rightarrow> ConversationContext \<times> result" where
  "execute_input_step ctx data message =
     (let variable_name = get_or data ''variable'' ''user_input''
      in (ctx\<lparr>flow_variables := AList.update variable_name (PStr message) (flow_variables ctx)\<rparr>,
          no_result\<lparr>success := True, collected_input := Some (variable_name, message),
                    step_completed := Some True, next_state := Some PROCESSING\<rparr>))"

definition execute_flow_step ::
  "(pyval \<Rightarrow> string) \<Rightarrow> RasaConversationManager \<Rightarrow> int \<Rightarrow> ConversationContext
     \<Rightarrow> ConversationFlow \<Rightarrow> step \<Rightarrow> string \<Rightarrow> ConversationContext \<times> result" where
  "execute_flow_step py_str mgr now ctx flow st message =
     (let stype = (case step_type st of None \<Rightarrow> ''message'' | Some t \<Rightarrow> t);
          data = step_data st
      in if stype = ''message'' then execute_message_step py_str mgr now ctx data message
         else if stype = ''memory_query'' then execute_memory_step now ctx data message
         else if stype = ''agent_call'' then execute_agent_step mgr now ctx data message
         else if stype = ''condition'' then execute_condition_step ctx data message
         else if stype = ''input_collection'' then execute_input_step ctx data message
         else (ctx, no_result\<lparr>error := Some (UnknownStepType stype),
                              step_completed := Some False\<rparr>))"

text \<open>Python truthiness of a flow variable.\<close>

fun truthy_val :: "pyval \<Rightarrow> bool" where
  "truthy_val (PInt n) = (n \<noteq> 0)"
| "truthy_val (PStr s) = (s \<noteq> [])"
| "truthy_val (PTime t) = True"
| "truthy_val (PFloat f) = (f \<noteq> 0)"

text \<open>\<open>_complete_flow\<close>: the state and the flow slot are set first; a start time
  that is not the ISO string of a datetime raises in \<open>fromisoformat\<close>, and the
  handler returns the failure.\<close>

definition complete_flow ::
  "int \<Rightarrow> ConversationContext \<Rightarrow> ConversationFlow \<Rightarrow> ConversationContext \<times> result" where
  "complete_flow now ctx flow =
     (let ctx1 = ctx\<lparr>current_state := COMPLETED, current_flow := None\<rparr>;
          done = (\<lambda>c. (c, no_result\<lparr>success := True, flow_completed := Some True,
                                     res_flow_id := Some (flow_id flow),
                                     res_flow_name := Some (flow_name flow),
                                     duration := Some (get_or (flow_variables c) ''flow_duration'' (PInt 0)),
                                     next_state := Some IDLE\<rparr>));
          failed = (\<lambda>e. (ctx1, no_result\<lparr>error := Some e, flow_completed := Some False\<rparr>))
      in case map_of (flow_variables ctx1) ''flow_start_time'' of
           None \<Rightarrow> done ctx1
         | Some start_time \<Rightarrow>
             if truthy_val start_time then
               (case start_time of
                  PTime start_dt \<Rightarrow>
                    done (ctx1\<lparr>flow_variables :=
                                 AList.update ''flow_duration''
                                   (PFloat (real_of_int (now - start_dt) / 1000000))
                                   (flow_variables ctx1)\<rparr>)
                | PStr s \<Rightarrow> failed ValueError
                | PInt n \<Rightarrow> failed TypeError
                | PFloat f \<Rightarrow> failed TypeError)
             else done ctx1)"

text \<open>\<open>_execute_conversation_flow\<close>. The step counter is read from
  \<open>flow_variables\<close>; the flow is completed by the call that finds the counter at
  the end of the step list, otherwise the step at the counter is executed and the
  counter incremented when the step reports \<open>step_completed\<close>.\<close>

definition error_result :: "py_error \<Rightarrow> result" where
  "error_result e = no_result\<lparr>error := Some e, next_state := Some ERROR\<rparr>"

definition increment_step :: "ConversationContext \<Rightarrow> py_error + ConversationContext" where
  "increment_step ctx =
     (case map_of (flow_variables ctx) ''current_step'' of
        None \<Rightarrow> Inl (KeyError ''current_step'')
      | Some (PInt n) \<Rightarrow>
          Inr (ctx\<lparr>flow_variables := AList.update ''current_step'' (PInt (n + 1)) (flow_variables ctx)\<rparr>)
      | Some (PFloat f) \<Rightarrow>
          Inr (ctx\<lparr>flow_variables := AList.update ''current_step'' (PFloat (f + 1)) (flow_variables ctx)\<rparr>)
      | Some (PStr s) \<Rightarrow> Inl TypeError
      | Some (PTime t) \<Rightarrow> Inl TypeError)"

definition run_step ::
  "(pyval \<Rightarrow> string) \<Rightarrow> RasaConversationManager \<Rightarrow> int \<Rightarrow> ConversationContext
     \<Rightarrow> ConversationFlow \<Rightarrow> step \<Rightarrow> string \<Rightarrow> ConversationContext \<times> result" where
  "run_step py_str mgr now ctx flow st message =
     (case execute_flow_step py_str mgr now ctx flow st message of
        (ctx', step_result) \<Rightarrow>
          if step_completed step_result = Some True then
            (case increment_step ctx' of
               Inl e \<Rightarrow> (ctx', error_result e)
             | Inr ctx'' \<Rightarrow> (ctx'', step_result))
          else (ctx', step_result))"

definition execute_conversation_flow ::
  "(pyval \<Rightarrow> string) \<Rightarrow> RasaConversationManager \<Rightarrow> int \<Rightarrow> ConversationContext
     \<Rightarrow> string \<Rightarrow> string \<Rightarrow> ConversationContext \<times> result" where
  "execute_conversation_flow py_str mgr now ctx fid message =
     (case map_of (flows mgr) fid of
        None \<Rightarrow> (ctx, error_result (FlowNotFound fid))
      | Some flow \<Rightarrow>
          (let ctx1 = ctx\<lparr>current_flow := Some fid, flow_type := Some (cf_flow_type flow),
                          current_state := FLOW_EXECUTION\<rparr>;
               ctx2 = (if ''current_step'' \<notin> fst ` set (flow_variables ctx1)
                       then ctx1\<lparr>flow_variables :=
                                   AList.update ''flow_start_time'' (PTime now)
                                     (AList.update ''current_step'' (PInt 0) (flow_variables ctx1))\<rparr>
                       else ctx1);
               n_steps = int (length (steps flow))
           in case map_of (flow_variables ctx2) ''current_step'' of
                None \<Rightarrow> (ctx2, error_result (KeyError ''current_step''))
              | Some (PInt n) \<Rightarrow>
                  if n \<ge> n_steps then complete_flow now ctx2 flow
                  else if 0 \<le> n then
                    run_step py_str mgr now ctx2 flow (steps flow ! nat n) message
                  else if - n_steps \<le> n then
                    run_step py_str mgr now ctx2 flow (steps flow ! nat (n_steps + n)) message
                  else (ctx2, error_result IndexError)
              | Some (PFloat f) \<Rightarrow>
                  if f \<ge> real_of_int n_steps then complete_flow now ctx2 flow
                  else (ctx2, error_result TypeError)
              | Some (PStr s) \<Rightarrow> (ctx2, error_result TypeError)
              | Some (PTime t) \<Rightarrow> (ctx2, error_result TypeError)))"

definition default_message_processing ::
  "RasaConversationManager \<Rightarrow> int \<Rightarrow> ConversationContext \<Rightarrow> string
     \<Rightarrow> ConversationContext \<times> result" where
  "default_message_processing mgr now ctx message =
     (let ctx1 = ctx\<lparr>current_state := LISTENING\<rparr>;
          resp = ''I understand you said: '' @ message @ ''. How can I help you further?''
      in (add_to_conversation_history mgr now ctx1 ''assistant'' resp,
          no_result\<lparr>success := True, response := Some resp,
                    next_state := Some WAITING_FOR_INPUT\<rparr>))"

text \<open>\<open>process_message\<close>: the context is the object held by \<open>sessions\<close>, so the
  manager after the call holds the context as the call left it.\<close>

definition process_message ::
  "(pyval \<Rightarrow> string) \<Rightarrow> RasaConversationManager \<Rightarrow> string \<Rightarrow> string \<Rightarrow> string \<Rightarrow> int
     \<Rightarrow> RasaConversationManager \<times> result" where
  "process_message py_str mgr sid message message_type now =
     (case map_of (sessions mgr) sid of
        None \<Rightarrow> (mgr, error_result (SessionNotFound sid))
      | Some ctx \<Rightarrow>
          (let ctx1 = ctx\<lparr>current_state := PROCESSING, updated_at := now\<rparr>;
               ctx2 = add_to_conversation_history mgr now ctx1 message_type message;
               flow_result = determine_conversation_flow mgr ctx2 message;
               (ctx3, res) =
                 (case fst flow_result of
                    None \<Rightarrow> default_message_processing mgr now ctx2 message
                  | Some fid \<Rightarrow>
                      if fid \<noteq> [] then execute_conversation_flow py_str mgr now ctx2 fid message
                      else default_message_processing mgr now ctx2 message)
           in (mgr\<lparr>sessions := modify sid (\<lambda>_. ctx3) (sessions mgr)\<rparr>, res)))"

text \<open>\<open>_classify_brain_region\<close> and \<open>start_conversation\<close>; \<open>new_id\<close> is the uuid
  of a new session.\<close>

definition classify_brain_region :: "string \<Rightarrow> string" where
  "classify_brain_region message =
     (let message_lower = str_lower message;
          any = (\<lambda>ws. list_ex (\<lambda>w. contains w message_lower) ws)
      in if any [''remember'', ''memory'', ''recall'', ''forget''] then ''TEMPORAL_LOBE''
         else if any [''my'', ''i am'', ''personal'', ''preference''] then ''OCCIPITAL_LOBE''
         else if any [''working'', ''current'', ''task'', ''now''] then ''PARIETAL_LOBE''
         else if any [''tool'', ''system'', ''function'', ''api''] then ''CEREBELLUM''
         else ''FRONTAL_LOBE'')"

definition start_conversation ::
  "RasaConversationManager \<Rightarrow> string \<Rightarrow> int \<Rightarrow> string \<Rightarrow> string \<Rightarrow> string option
     \<Rightarrow> RasaConversationManager \<times> ConversationContext" where
  "start_conversation mgr new_id now uid initial_message sid =
     (let existing = (case sid of
                        None \<Rightarrow> None
                      | Some k \<Rightarrow> if k \<noteq> [] then map_option (Pair k) (map_of (sessions mgr) k)
                                  else None);
          (k, ctx, mgr1) =
            (case existing of
               Some (k, c) \<Rightarrow>
                 (k, c\<lparr>updated_at := now\<rparr>,
                  mgr\<lparr>sessions := modify k (\<lambda>c. c\<lparr>updated_at := now\<rparr>) (sessions mgr)\<rparr>)
             | None \<Rightarrow>
                 (let c = \<lparr>session_id = new_id, ctx_user_id = uid, current_state = LISTENING,
                           current_flow = None, flow_type = None,
                           ctx_brain_region = classify_brain_region initial_message,
                           memory_context = [], agent_context = [], flow_variables = [],
                           conversation_history = [], ctx_created_at = now, updated_at = now,
                           ctx_metadata = []\<rparr>
                  in (new_id, c, mgr\<lparr>sessions := AList.update new_id c (sessions mgr)\<rparr>)));
          ctx' = add_to_conversation_history mgr now ctx ''user'' initial_message
      in (mgr1\<lparr>sessions := modify k (\<lambda>_. ctx') (sessions mgr1)\<rparr>, ctx'))"

text \<open>\<open>_register_default_flows\<close> and the manager that \<open>__init__\<close> builds from a
  configuration.\<close>

definition memory_flow :: ConversationFlow where
  "memory_flow =
     \<lparr>flow_id = ''memory_interaction'', flow_name = ''Memory Interaction'',
      cf_flow_type = MEMORY_INTERACTION,
      description = ''Handle memory-related queries and operations'',
      trigger_patterns = [''remember'', ''memory'', ''recall'', ''forget'', ''brain''],
      brain_regions = [''TEMPORAL_LOBE'', ''FRONTAL_LOBE''],
      steps = [\<lparr>step_type = Some ''memory_query'',
                 step_data = [(''query'', ''{user_message}''), (''brain_region'', ''{brain_region}'')]\<rparr>,
               \<lparr>step_type = Some ''message'',
                 step_data = [(''template'',
                   ''I found some relevant memories. How would you like to proceed?'')]\<rparr>],
      required_context = [], expected_duration = 30,
      success_criteria = [(''memory_retrieved'', True)],
      fallback_actions = [''default_response''], cf_metadata = []\<rparr>"

definition qa_flow :: ConversationFlow where
  "qa_flow =
     \<lparr>flow_id = ''simple_qa'', flow_name = ''Simple Q&A'', cf_flow_type = SIMPLE_QA,
      description = ''Handle simple question and answer interactions'',
      trigger_patterns = [''what'', ''how'', ''why'', ''when'', ''where''],
      brain_regions = [''FRONTAL_LOBE'', ''TEMPORAL_LOBE''],
      steps = [\<lparr>step_type = Some ''message'',
                 step_data = [(''template'', ''Let me help you with that question.'')]\<rparr>],
      required_context = [], expected_duration = 15,
      success_criteria = [(''response_provided'', True)],
      fallback_actions = [''default_response''], cf_metadata = []\<rparr>"

definition init_manager :: "int \<Rightarrow> int \<Rightarrow> string \<Rightarrow> RasaConversationManager" where
  "init_manager timeout max_history region =
     \<lparr>sessions = [],
      flows = AList.update (flow_id qa_flow) qa_flow
                (AList.update (flow_id memory_flow) memory_flow []),
      agents = [], session_timeout = timeout, max_conversation_history = max_history,
      default_brain_region = region\<rparr>"

text \<open>A run of \<open>process_message\<close> calls on one session; a call is the message, its
  type and the reading of the clock.\<close>

fun drive ::
  "(pyval \<Rightarrow> string) \<Rightarrow> RasaConversationManager \<Rightarrow> string \<Rightarrow> (string \<times> string \<times> int) list
     \<Rightarrow> RasaConversationManager \<times> result list" where
  "drive py_str mgr sid [] = (mgr, [])"
| "drive py_str mgr sid ((message, message_type, now) # calls) =
     (case process_message py_str mgr sid message message_type now of
        (mgr1, res) \<Rightarrow>
          (case drive py_str mgr1 sid calls of (mgr2, rs) \<Rightarrow> (mgr2, res # rs)))"

text \<open>The flow that \<open>process_message\<close> would determine for a message, and the
  runs in which every call selects the flow \<open>fid\<close> and returns
  \<open>step_completed = True\<close>.\<close>

definition selected :: "RasaConversationManager \<Rightarrow> string \<Rightarrow> string \<Rightarrow> string option" where
  "selected mgr sid message =
     (case map_of (sessions mgr) sid of
        None \<Rightarrow> None
      | Some ctx \<Rightarrow> fst (determine_conversation_flow mgr ctx message))"

fun flow_run ::
  "(pyval \<Rightarrow> string) \<Rightarrow> RasaConversationManager \<Rightarrow> string \<Rightarrow> string
     \<Rightarrow> (string \<times> string \<times> int) list \<Rightarrow> bool" where
  "flow_run py_str mgr sid fid [] = True"
| "flow_run py_str mgr sid fid ((message, message_type, now) # calls) =
     (selected mgr sid message = Some fid
      \<and> step_completed (snd (process_message py_str mgr sid message message_type now)) = Some True
      \<and> flow_run py_str (fst (process_message py_str mgr sid message message_type now)) sid fid calls)"

text \<open>No \<open>input_collection\<close> step of the flow stores its input under
  \<open>flow_start_time\<close>.\<close>

definition keeps_start_time :: "ConversationFlow \<Rightarrow> bool" where
  "keeps_start_time flow =
     list_all (\<lambda>st. \<not> (step_type st = Some ''input_collection''
                         \<and> get_or (step_data st) ''variable'' ''user_input'' = ''flow_start_time''))
              (steps flow)"

text \<open>A stand-in for Python's \<open>str\<close>.\<close>

fun show_val :: "pyval \<Rightarrow> string" where
  "show_val (PStr s) = s"
| "show_val v = ''?''"

definition fresh_session :: "RasaConversationManager" where
  "fresh_session = fst (start_conversation (init_manager 3600 50 ''FRONTAL_LOBE'') ''s1'' 10 ''u1''
                          ''what is this'' None)"

text \<open>Appending a list of messages (role, content, clock reading) to a session, the
  entry that \<open>_add_to_conversation_history\<close> builds for a message, a session with
  an empty history, and the last \<open>n\<close> elements of a list.\<close>

definition entry_of :: "ConversationContext \<Rightarrow> string \<times> string \<times> int \<Rightarrow> message_entry" where
  "entry_of ctx e = (case e of (r, c, now) \<Rightarrow>
     \<lparr>msg_role = r, msg_content = c, msg_timestamp = now, msg_brain_region = ctx_brain_region ctx\<rparr>)"

definition append_all ::
  "RasaConversationManager \<Rightarrow> ConversationContext \<Rightarrow> (string \<times> string \<times> int) list
     \<Rightarrow> ConversationContext" where
  "append_all mgr ctx es =
     foldl (\<lambda>c (r, m, now). add_to_conversation_history mgr now c r m) ctx es"

definition blank_context :: ConversationContext where
  "blank_context =
     \<lparr>session_id = ''s1'', ctx_user_id = ''u1'', current_state = LISTENING,
      current_flow = None, flow_type = None, ctx_brain_region = ''FRONTAL_LOBE'',
      memory_context = [], agent_context = [], flow_variables = [],
      conversation_history = [], ctx_created_at = 0, updated_at = 0, ctx_metadata = []\<rparr>"

definition lastn :: "nat \<Rightarrow> 'a list \<Rightarrow> 'a list" where
  "lastn n xs = drop (length xs - n) xs"

text \<open>The flow variables as \<open>_execute_conversation_flow\<close> reads them: with
  the step counter and the start time set when the counter was absent. And the
  context of the session \<open>fresh_session\<close>.\<close>

definition primed :: "int \<Rightarrow> (string \<times> pyval) list \<Rightarrow> (string \<times> pyval) list" where
  "primed now fv =
     (if ''current_step'' \<notin> fst ` set fv
      then AList.update ''flow_start_time'' (PTime now) (AList.update ''current_step'' (PInt 0) fv)
      else fv)"

definition fresh_context :: ConversationContext where
  "fresh_context = snd (start_conversation (init_manager 3600 50 ''FRONTAL_LOBE'') ''s1'' 10 ''u1''
                          ''what is this'' None)"

section \<open>The significance gate\<close>

text \<open>
  C5. A call of \<open>learn_from_interaction\<close> whose \<open>success_score\<close> is strictly below
  \<open>min_success_score\<close> returns no pattern id, and leaves the adapter, hence the
  stored patterns and \<open>total_patterns\<close>, as they were.
\<close>

theorem significance_gate:
  assumes "score < min_success_score s"
  shows "fst (learn_from_interaction L new_id now s ictx out score region ptype meta) = None
       \<and> snd (learn_from_interaction L new_id now s ictx out score region ptype meta) = s
       \<and> total_patterns (snd (learn_from_interaction L new_id now s ictx out score region ptype meta))
           = total_patterns s"
  using assms by (simp add: learn_from_interaction_def)

theorem significance_gate_witness:
  "(0.5::real) < min_success_score empty_adapter
   \<and> fst (learn_from_interaction exact_lib ''id1'' 0 empty_adapter ''hello'' ''world'' 0.5
            ''CEREBELLUM'' ''tool_usage'' None) = None
   \<and> total_patterns (snd (learn_from_interaction exact_lib ''id1'' 0 empty_adapter ''hello''
            ''world'' 0.5 ''CEREBELLUM'' ''tool_usage'' None)) = 0"
proof -
  have h: "(0.5::real) < min_success_score empty_adapter"
    by (simp add: empty_adapter_def)
  show ?thesis
    using h significance_gate [OF h, of exact_lib "''id1''" 0 "''hello''" "''world''"
        "''CEREBELLUM''" "''tool_usage''" None]
    by (simp add: total_patterns_def empty_adapter_def)
qed

section \<open>Cleanup of old patterns\<close>

lemma foldl_delete_filter:
  "foldl (\<lambda>ps k. AList.delete k ps) ps ks = filter (\<lambda>(k, p). k \<notin> set ks) ps"
proof (induction ks arbitrary: ps)
  case Nil then show ?case by simp
next
  case (Cons k ks)
  have "foldl (\<lambda>ps k. AList.delete k ps) ps (k # ks)
        = filter (\<lambda>(k, p). k \<notin> set ks) (AList.delete k ps)"
    by (simp only: foldl_Cons Cons.IH)
  also have "\<dots> = filter (\<lambda>(k', p). k' \<notin> set (k # ks)) ps"
    by (auto simp: AList.delete_eq intro: filter_cong)
  finally show ?case .
qed

lemma distinct_key_filter:
  assumes "distinct (map fst ps)"
  shows "filter (\<lambda>(k, p). k \<notin> fst ` set (filter (\<lambda>(k, p). P p) ps)) ps
         = filter (\<lambda>(k, p). \<not> P p) ps"
proof (rule filter_cong[OF refl])
  fix x assume x: "x \<in> set ps"
  obtain k p where kp: "x = (k, p)" by (cases x)
  have "k \<in> fst ` set (filter (\<lambda>(k, p). P p) ps) \<longleftrightarrow> P p"
  proof
    assume "k \<in> fst ` set (filter (\<lambda>(k, p). P p) ps)"
    then obtain q where q: "(k, q) \<in> set ps" "P q" by auto
    from assms x kp q(1) have "q = p" by (metis eq_key_imp_eq_value)
    with q show "P p" by simp
  next
    assume "P p"
    with x kp show "k \<in> fst ` set (filter (\<lambda>(k, p). P p) ps)" by force
  qed
  then show "(case x of (k, p) \<Rightarrow> k \<notin> fst ` set (filter (\<lambda>(k, p). P p) ps)) = (case x of (k, p) \<Rightarrow> \<not> P p)"
    using kp by simp
qed

lemma patterns_update_vectorizer: "patterns (update_vectorizer L s) = patterns s"
  by (simp add: update_vectorizer_def update_pattern_vectors_def split: option.splits)

lemma cleanup_patterns:
  assumes "distinct (map fst (patterns s))"
  shows "patterns (cleanup_old_patterns L now s)
         = filter (\<lambda>(k, p). \<not> removable (now - pattern_decay_days s * 86400000000) p) (patterns s)"
proof -
  let ?c = "now - pattern_decay_days s * 86400000000"
  define rem where "rem = map fst (filter (\<lambda>(k, p). removable ?c p) (patterns s))"
  have key: "filter (\<lambda>(k, p). k \<notin> set rem) (patterns s)
             = filter (\<lambda>(k, p). \<not> removable ?c p) (patterns s)"
    unfolding rem_def using distinct_key_filter[OF assms, of "removable ?c"] by simp
  have "patterns (cleanup_old_patterns L now s) = filter (\<lambda>(k, p). k \<notin> set rem) (patterns s)"
    unfolding cleanup_old_patterns_def Let_def rem_def[symmetric]
    by (simp add: patterns_update_vectorizer foldl_delete_filter)
  with key show ?thesis by simp
qed

text \<open>
  C9. \<open>cleanup_old_patterns\<close> keeps, in their order, exactly the patterns that are
  not (created before \<open>now - pattern_decay_days\<close> and of effectiveness below 0.5
  and of usage count below 3). A pattern created \<open>pattern_decay_days + 1\<close> days ago
  with effectiveness 0.4 and usage count 1 is removed; one that differs only in its
  usage count 5 is retained. The keys of the store are distinct, as those of a
  \<open>dict\<close> are.
\<close>

theorem cleanup_boundary:
  assumes "distinct (map fst (patterns s))"
  shows "patterns (cleanup_old_patterns L now s)
           = filter (\<lambda>(k, p). \<not> (created_at p < now - pattern_decay_days s * 86400000000
                                   \<and> effectiveness_score p < 0.5 \<and> usage_count p < 3))
                    (patterns s)
       \<and> ((k, p) \<in> set (patterns s)
            \<and> created_at p = now - (pattern_decay_days s + 1) * 86400000000
            \<and> effectiveness_score p = 0.4 \<and> usage_count p = 1
          \<longrightarrow> (k, p) \<notin> set (patterns (cleanup_old_patterns L now s)))
       \<and> ((k', p') \<in> set (patterns s)
            \<and> created_at p' = now - (pattern_decay_days s + 1) * 86400000000
            \<and> effectiveness_score p' = 0.4 \<and> usage_count p' = 5
          \<longrightarrow> (k', p') \<in> set (patterns (cleanup_old_patterns L now s)))"
proof -
  have eq: "patterns (cleanup_old_patterns L now s)
           = filter (\<lambda>(k, p). \<not> (created_at p < now - pattern_decay_days s * 86400000000
                                   \<and> effectiveness_score p < 0.5 \<and> usage_count p < 3))
                    (patterns s)"
    using cleanup_patterns[OF assms, of L now] by (simp add: removable_def)
  show ?thesis
    unfolding eq by (auto simp: algebra_simps)
qed

theorem cleanup_boundary_witness:
  "distinct (map fst (patterns old_store))
   \<and> (''p1'', old_pattern ''p1'' 1) \<in> set (patterns old_store)
   \<and> created_at (old_pattern ''p1'' 1)
       = 100 * 86400000000 - (pattern_decay_days old_store + 1) * 86400000000
   \<and> effectiveness_score (old_pattern ''p1'' 1) = 0.4 \<and> usage_count (old_pattern ''p1'' 1) = 1
   \<and> (''p5'', old_pattern ''p5'' 5) \<in> set (patterns old_store)
   \<and> created_at (old_pattern ''p5'' 5)
       = 100 * 86400000000 - (pattern_decay_days old_store + 1) * 86400000000
   \<and> effectiveness_score (old_pattern ''p5'' 5) = 0.4 \<and> usage_count (old_pattern ''p5'' 5) = 5
   \<and> (''p1'', old_pattern ''p1'' 1)
       \<notin> set (patterns (cleanup_old_patterns exact_lib (100 * 86400000000) old_store))
   \<and> (''p5'', old_pattern ''p5'' 5)
       \<in> set (patterns (cleanup_old_patterns exact_lib (100 * 86400000000) old_store))
   \<and> map fst (patterns (cleanup_old_patterns exact_lib (100 * 86400000000) old_store)) = [''p5'']"
proof -
  have h: "distinct (map fst (patterns old_store))"
    by (simp add: old_store_def empty_adapter_def)
  have a: "(''p1'', old_pattern ''p1'' 1) \<in> set (patterns old_store)
      \<and> created_at (old_pattern ''p1'' 1)
          = 100 * 86400000000 - (pattern_decay_days old_store + 1) * 86400000000
      \<and> effectiveness_score (old_pattern ''p1'' 1) = 0.4 \<and> usage_count (old_pattern ''p1'' 1) = 1"
    by (simp add: old_store_def empty_adapter_def old_pattern_def)
  have b: "(''p5'', old_pattern ''p5'' 5) \<in> set (patterns old_store)
      \<and> created_at (old_pattern ''p5'' 5)
          = 100 * 86400000000 - (pattern_decay_days old_store + 1) * 86400000000
      \<and> effectiveness_score (old_pattern ''p5'' 5) = 0.4 \<and> usage_count (old_pattern ''p5'' 5) = 5"
    by (simp add: old_store_def empty_adapter_def old_pattern_def)
  note t = cleanup_boundary [OF h, of exact_lib "100 * 86400000000" "''p1''" "old_pattern ''p1'' 1"
      "''p5''" "old_pattern ''p5'' 5"]
  from t a have r1: "(''p1'', old_pattern ''p1'' 1)
       \<notin> set (patterns (cleanup_old_patterns exact_lib (100 * 86400000000) old_store))"
    by blast
  from t b have r5: "(''p5'', old_pattern ''p5'' 5)
       \<in> set (patterns (cleanup_old_patterns exact_lib (100 * 86400000000) old_store))"
    by blast
  have keys: "map fst (patterns (cleanup_old_patterns exact_lib (100 * 86400000000) old_store)) = [''p5'']"
    using t by (simp add: old_store_def empty_adapter_def old_pattern_def)
  from h a b r1 r5 keys show ?thesis by blast
qed

section \<open>Feedback\<close>

lemma map_of_modify:
  "map_of (modify k f ps) k' = (if k' = k then map_option f (map_of ps k) else map_of ps k')"
  by (induction ps) (auto simp: modify_def)

lemma feedback_blend:
  fixes e f :: real
  assumes "0 \<le> e" "e \<le> 1" "- 1 \<le> f" "f \<le> 1"
  shows "0 \<le> e * 0.8 + (f + 1.0) / 2.0 * 0.2" "e * 0.8 + (f + 1.0) / 2.0 * 0.2 \<le> 1"
proof -
  have a: "0 \<le> e * 0.8" "e * 0.8 \<le> 0.8" using assms by simp_all
  have b: "0 \<le> (f + 1.0) / 2.0 * 0.2" "(f + 1.0) / 2.0 * 0.2 \<le> 0.2" using assms by simp_all
  from a b show "0 \<le> e * 0.8 + (f + 1.0) / 2.0 * 0.2" by linarith
  from a b show "e * 0.8 + (f + 1.0) / 2.0 * 0.2 \<le> 1" by linarith
qed

lemma reuse_bounds:
  assumes "0 \<le> effectiveness_score p" "effectiveness_score p \<le> 1" "0 \<le> c" "c \<le> 1"
  shows "0 \<le> effectiveness_score (reuse now c p) \<and> effectiveness_score (reuse now c p) \<le> 1"
  using assms by (simp add: reuse_def)

lemma learn_keeps_bounds:
  assumes "map_of (patterns s) pid = Some q"
    and "0 \<le> effectiveness_score q" "effectiveness_score q \<le> 1" "0 \<le> c" "c \<le> 1"
  shows "\<exists>q'. map_of (patterns (snd (learn_from_interaction L new_id now s ictx out c region ptype meta))) pid = Some q'
              \<and> 0 \<le> effectiveness_score q' \<and> effectiveness_score q' \<le> 1"
proof (cases "c < min_success_score s")
  case True
  with assms show ?thesis by (simp add: learn_from_interaction_def)
next
  case gate: False
  show ?thesis
  proof (cases "find_similar_pattern L s ictx ptype region")
    case None
    with gate assms show ?thesis
      by (simp add: learn_from_interaction_def patterns_update_vectorizer update_conv')
  next
    case (Some kp)
    obtain k p where kp: "kp = (k, p)" by (cases kp)
    with Some gate assms reuse_bounds[of q c now] show ?thesis
      by (auto simp: learn_from_interaction_def map_of_modify)
  qed
qed

text \<open>
  C6. If the pattern named by \<open>pattern_id\<close> has an \<open>effectiveness_score\<close> in
  \<open>[0,1]\<close> and the \<open>feedback_score\<close> lies in \<open>[-1,1]\<close>, then after
  \<open>record_feedback\<close>, including the nested \<open>learn_from_interaction\<close> that a
  correction triggers, the pattern is still stored and its \<open>effectiveness_score\<close>
  lies in \<open>[0,1]\<close>.
\<close>

theorem feedback_score_bounds:
  assumes "map_of (patterns s) pid = Some p"
    and "0 \<le> effectiveness_score p" "effectiveness_score p \<le> 1"
    and "- 1 \<le> fscore" "fscore \<le> 1"
  shows "\<exists>p'. map_of (patterns (snd (record_feedback L feedback_id new_id now s pid uid ftype fscore
                                        orig corrected ctx))) pid = Some p'
              \<and> 0 \<le> effectiveness_score p' \<and> effectiveness_score p' \<le> 1"
proof -
  define g where "g = (\<lambda>p::LearningPattern. p\<lparr>effectiveness_score :=
                         effectiveness_score p * 0.8 + (fscore + 1.0) / 2.0 * 0.2\<rparr>)"
  define rec where "rec = \<lparr>fr_id = feedback_id, pattern_id = pid, user_id = uid,
                      feedback_type = ftype, original_output = orig,
                      corrected_output = corrected, feedback_score = fscore,
                      timestamp = now,
                      fr_context = (case ctx of None \<Rightarrow> [] | Some c \<Rightarrow> c)\<rparr>"
  define s' where "s' = s\<lparr>feedback_records := AList.update feedback_id rec (feedback_records s),
                          patterns := modify pid g (patterns s)\<rparr>"
  have look: "map_of (patterns s') pid = Some (g p)"
    using assms(1) by (simp add: s'_def map_of_modify)
  have gb: "0 \<le> effectiveness_score (g p)" "effectiveness_score (g p) \<le> 1"
    using feedback_blend[OF assms(2-5)] by (simp_all add: g_def)
  show ?thesis
  proof (cases "\<exists>c. corrected = Some c \<and> c \<noteq> [] \<and> fscore > 0")
    case True
    then obtain c where c: "corrected = Some c" "c \<noteq> []" "fscore > 0" by blast
    have sc: "0 \<le> min 1.0 (fscore + 0.5)" "min 1.0 (fscore + 0.5) \<le> 1"
      using c(3) by simp_all
    have "snd (record_feedback L feedback_id new_id now s pid uid ftype fscore orig corrected ctx)
          = snd (learn_from_interaction L new_id now s' (input_context p) c (min 1.0 (fscore + 0.5))
                   (brain_region p) (pattern_type p)
                   (Some [(''source'', ''user_correction''), (''original_pattern'', pid)]))"
      using assms(1) c by (simp add: record_feedback_def Let_def s'_def g_def rec_def)
    then show ?thesis
      using learn_keeps_bounds[OF look gb sc] by simp
  next
    case False
    then have "snd (record_feedback L feedback_id new_id now s pid uid ftype fscore orig corrected ctx) = s'"
      using assms(1) by (cases corrected) (auto simp: record_feedback_def Let_def s'_def g_def rec_def)
    with look gb show ?thesis by simp
  qed
qed


theorem feedback_score_bounds_witness:
  "map_of (patterns old_store) ''p1'' = Some (old_pattern ''p1'' 1)
   \<and> 0 \<le> effectiveness_score (old_pattern ''p1'' 1)
   \<and> effectiveness_score (old_pattern ''p1'' 1) \<le> 1
   \<and> - 1 \<le> (1::real) \<and> (1::real) \<le> 1
   \<and> (\<exists>p'. map_of (patterns (snd (record_feedback exact_lib ''f1'' ''n1'' 0 old_store ''p1''
                  ''u1'' ''correction'' 1 ''hi'' (Some ''hello'') None))) ''p1'' = Some p'
            \<and> 0 \<le> effectiveness_score p' \<and> effectiveness_score p' \<le> 1)"
proof -
  have h1: "map_of (patterns old_store) ''p1'' = Some (old_pattern ''p1'' 1)"
    by (simp add: old_store_def empty_adapter_def)
  have h2: "0 \<le> effectiveness_score (old_pattern ''p1'' 1)"
    and h3: "effectiveness_score (old_pattern ''p1'' 1) \<le> 1"
    by (simp_all add: old_pattern_def)
  have h4: "- 1 \<le> (1::real)" and h5: "(1::real) \<le> 1" by simp_all
  from feedback_score_bounds [OF h1 h2 h3 h4 h5, of exact_lib "''f1''" "''n1''" 0 "''u1''"
      "''correction''" "''hi''" "Some ''hello''" None] h1 h2 h3
  show ?thesis by simp
qed

text \<open>
  C3, as the claim states it, fails: for a \<open>pattern_id\<close> that names no stored
  pattern, \<open>record_feedback\<close> returns the id of a feedback record as for any
  other call, and the record is in the ledger afterwards.
\<close>

theorem feedback_unknown_pattern_counterexample:
  "map_of (patterns old_store) ''missing'' = None
   \<and> feedback_records old_store = []
   \<and> fst (record_feedback exact_lib ''f1'' ''n1'' 0 old_store ''missing'' ''u1'' ''positive'' 1
            ''hi'' None None) = Some ''f1''
   \<and> map fst (feedback_records (snd (record_feedback exact_lib ''f1'' ''n1'' 0 old_store ''missing''
            ''u1'' ''positive'' 1 ''hi'' None None))) = [''f1'']"
  by (simp add: record_feedback_def old_store_def empty_adapter_def Let_def)

text \<open>
  C3, amended. For a \<open>pattern_id\<close> that names no stored pattern,
  \<open>record_feedback\<close> modifies no pattern and leaves the vectorizer and the
  pattern vectors alone; it stores the feedback record, which keeps the dangling
  \<open>pattern_id\<close>, and returns the record's id.
\<close>

theorem feedback_unknown_pattern:
  assumes "map_of (patterns s) pid = None"
  shows "record_feedback L feedback_id new_id now s pid uid ftype fscore orig corrected ctx
         = (Some feedback_id,
            s\<lparr>feedback_records :=
                 AList.update feedback_id
                   \<lparr>fr_id = feedback_id, pattern_id = pid, user_id = uid,
                    feedback_type = ftype, original_output = orig,
                    corrected_output = corrected, feedback_score = fscore,
                    timestamp = now,
                    fr_context = (case ctx of None \<Rightarrow> [] | Some c \<Rightarrow> c)\<rparr>
                   (feedback_records s)\<rparr>)
       \<and> patterns (snd (record_feedback L feedback_id new_id now s pid uid ftype fscore orig
                          corrected ctx)) = patterns s
       \<and> vectorizer (snd (record_feedback L feedback_id new_id now s pid uid ftype fscore orig
                          corrected ctx)) = vectorizer s
       \<and> pattern_vectors (snd (record_feedback L feedback_id new_id now s pid uid ftype fscore orig
                          corrected ctx)) = pattern_vectors s
       \<and> map_of (feedback_records (snd (record_feedback L feedback_id new_id now s pid uid ftype
                          fscore orig corrected ctx))) feedback_id \<noteq> None"
  using assms by (simp add: record_feedback_def Let_def update_conv')

theorem feedback_unknown_pattern_witness:
  "map_of (patterns old_store) ''missing'' = None
   \<and> patterns (snd (record_feedback exact_lib ''f1'' ''n1'' 0 old_store ''missing'' ''u1''
                      ''positive'' 1 ''hi'' None None)) = patterns old_store"
proof -
  have h: "map_of (patterns old_store) ''missing'' = None"
    by (simp add: old_store_def empty_adapter_def)
  from feedback_unknown_pattern [OF h, of exact_lib "''f1''" "''n1''" 0 "''u1''" "''positive''" 1
      "''hi''" None None] h
  show ?thesis by simp
qed

section \<open>The update path of learning\<close>

lemma length_modify: "length (modify k f ps) = length ps"
  by (simp add: modify_def)

lemma nth_modify:
  "i < length ps \<Longrightarrow> modify k f ps ! i
     = (if fst (ps ! i) = k then (k, f (snd (ps ! i))) else ps ! i)"
  by (cases "ps ! i") (simp add: modify_def)

text \<open>
  C10. When \<open>learn_from_interaction\<close> passes the threshold and
  \<open>find_similar_pattern\<close> returns the pattern stored under \<open>k\<close>, the call
  returns that pattern's id; the feedback records, the fitted vectorizer and the
  pattern vectors are as before (the index is not rebuilt); the store has the same
  length; every entry under another key is unchanged; and the entry under \<open>k\<close>
  differs from the old one in \<open>usage_count\<close> (one more), \<open>last_used\<close> (now) and
  \<open>effectiveness_score\<close> (0.9 of the old plus 0.1 of the success score) only.
\<close>

theorem update_path_frame:
  assumes "\<not> score < min_success_score s"
    and "find_similar_pattern L s ictx ptype region = Some (k, p)"
  shows "(let r = learn_from_interaction L new_id now s ictx out score region ptype meta;
              s' = snd r
          in fst r = Some (lp_id p)
           \<and> feedback_records s' = feedback_records s
           \<and> vectorizer s' = vectorizer s
           \<and> pattern_vectors s' = pattern_vectors s
           \<and> length (patterns s') = length (patterns s)
           \<and> (i < length (patterns s) \<and> fst (patterns s ! i) \<noteq> k
                \<longrightarrow> patterns s' ! i = patterns s ! i)
           \<and> (i < length (patterns s) \<and> fst (patterns s ! i) = k
                \<longrightarrow> patterns s' ! i
                    = (k, (snd (patterns s ! i))
                            \<lparr>usage_count := usage_count (snd (patterns s ! i)) + 1,
                             last_used := Some now,
                             effectiveness_score :=
                               effectiveness_score (snd (patterns s ! i)) * 0.9 + score * 0.1\<rparr>)))"
  using assms
  by (simp add: learn_from_interaction_def Let_def length_modify nth_modify reuse_def)

theorem update_path_frame_witness:
  "\<not> (0.9::real) < min_success_score old_store
   \<and> find_similar_pattern exact_lib old_store ''hello world'' ''conversation'' ''FRONTAL_LOBE''
       = Some (''p1'', old_pattern ''p1'' 1)
   \<and> (0::nat) < length (patterns old_store) \<and> fst (patterns old_store ! 0) = ''p1''
   \<and> (1::nat) < length (patterns old_store) \<and> fst (patterns old_store ! 1) \<noteq> ''p1''
   \<and> patterns (snd (learn_from_interaction exact_lib ''n1'' 7 old_store ''hello world'' ''out'' 0.9
                      ''FRONTAL_LOBE'' ''conversation'' None)) ! 0
       = (''p1'', (old_pattern ''p1'' 1)\<lparr>usage_count := 2, last_used := Some 7,
                                          effectiveness_score := 0.45\<rparr>)
   \<and> patterns (snd (learn_from_interaction exact_lib ''n1'' 7 old_store ''hello world'' ''out'' 0.9
                      ''FRONTAL_LOBE'' ''conversation'' None)) ! 1 = patterns old_store ! 1"
proof -
  have h1: "\<not> (0.9::real) < min_success_score old_store"
    by (simp add: old_store_def empty_adapter_def)
  have h2: "find_similar_pattern exact_lib old_store ''hello world'' ''conversation'' ''FRONTAL_LOBE''
       = Some (''p1'', old_pattern ''p1'' 1)"
    by (simp add: find_similar_pattern_def old_store_def empty_adapter_def old_pattern_def
        calculate_text_similarity_def exact_lib_def exact_fit_def exact_transform_def
        exact_cosine_def)
  have h3: "(1::nat) < length (patterns old_store) \<and> fst (patterns old_store ! 1) \<noteq> ''p1''"
    by (simp add: old_store_def empty_adapter_def)
  have h4: "(0::nat) < length (patterns old_store) \<and> fst (patterns old_store ! 0) = ''p1''"
    by (simp add: old_store_def empty_adapter_def)
  have v: "snd (patterns old_store ! 0) = old_pattern ''p1'' 1"
    by (simp add: old_store_def empty_adapter_def)
  have e: "effectiveness_score (old_pattern ''p1'' 1) = 0.4"
    and u: "usage_count (old_pattern ''p1'' 1) + 1 = 2"
    by (simp_all add: old_pattern_def)
  from update_path_frame [OF h1 h2, of "''n1''" 7 "''out''" None 1] h3
  have r1: "patterns (snd (learn_from_interaction exact_lib ''n1'' 7 old_store ''hello world'' ''out''
                0.9 ''FRONTAL_LOBE'' ''conversation'' None)) ! 1 = patterns old_store ! 1"
    by (simp add: Let_def)
  from update_path_frame [OF h1 h2, of "''n1''" 7 "''out''" None 0] h4
  have r0: "patterns (snd (learn_from_interaction exact_lib ''n1'' 7 old_store ''hello world'' ''out''
                0.9 ''FRONTAL_LOBE'' ''conversation'' None)) ! 0
       = (''p1'', (old_pattern ''p1'' 1)\<lparr>usage_count := 2, last_used := Some 7,
                                          effectiveness_score := 0.45\<rparr>)"
    by (simp add: Let_def v e u)
  from h1 h2 h3 h4 r0 r1 show ?thesis by blast
qed

section \<open>Merging near-duplicates\<close>
















section \<open>Retrieval\<close>

lemma slice_to_Nil: "slice_to n [] = []"
  by (simp add: slice_to_def)

lemma sorted_uminus_rev: "sorted (map uminus (ys :: real list)) = sorted (rev ys)"
  by (induction ys) (auto simp: sorted_append)

lemma sorted_rev_slice:
  assumes "sorted (rev (ys :: real list))"
  shows "sorted (rev (take n ys))"
proof -
  have "rev (take n ys) = drop (length ys - n) (rev ys)"
    by (simp add: rev_take)
  with assms show ?thesis by (simp add: sorted_wrt_drop)
qed

lemma real_arith_combined: "combined real_arith x y = x * 0.7 + y * 0.3"
  by (simp add: real_arith_def)

lemma real_arith_word_ratio: "word_ratio real_arith a b = real a / real b"
  by (simp add: real_arith_def)

lemma real_arith_text_scores: "text_scores_in real_arith query ps = text_scores query ps"
  unfolding text_scores_in_def text_scores_def real_arith_combined real_arith_word_ratio ..

lemma real_arith_vector_scores:
  "vector_scores_in real_arith similarities cands = vector_scores similarities cands"
  unfolding vector_scores_in_def vector_scores_def real_arith_combined ..

lemma real_arith_retrieve:
  "retrieve_relevant_patterns_in real_arith L s query ptype region limit
   = retrieve_relevant_patterns L s query ptype region limit"
  unfolding retrieve_relevant_patterns_in_def retrieve_relevant_patterns_def
    simple_text_matching_def real_arith_text_scores real_arith_vector_scores ..

lemma insort_key_paired:
  "insort_key (\<lambda>x. - snd x) (q, f q) (map (\<lambda>p. (p, f p)) ps)
   = map (\<lambda>p. (p, f p)) (insort_key (\<lambda>p. - f p) q ps)"
  by (induction ps) auto

lemma sort_desc_paired:
  "sort_desc (map (\<lambda>p. (p, f p)) ps) = map (\<lambda>p. (p, f p)) (sort_key (\<lambda>p. - f p) ps)"
  by (induction ps) (simp_all add: sort_desc_def insort_key_paired)

lemma slice_to_map: "slice_to n (map g xs) = map g (slice_to n xs)"
  by (simp add: slice_to_def take_map)

lemma ranked_paired:
  "map fst (slice_to limit (sort_desc (map (\<lambda>p. (p, f p)) ps)))
   = slice_to limit (sort_key (\<lambda>p. - f p) ps)"
  by (simp add: sort_desc_paired slice_to_map comp_def)

lemma text_scores_in_own:
  assumes "str_split (str_lower query) \<noteq> []"
  shows "text_scores_in A query ps
         = map (\<lambda>p. (p, combined A (word_overlap A query (input_context p))
                                     (effectiveness_score p))) ps"
proof -
  have pos: "0 < card (set (str_split (str_lower query)) \<union> X)" if "finite X" for X
    using assms that by (simp add: card_gt_0_iff)
  show ?thesis
    by (induction ps) (simp_all add: text_scores_in_def Let_def word_overlap_def pos)
qed

lemma vector_scores_in_synced:
  "vector_scores_in A (map f cands) cands
   = map (\<lambda>p. (p, combined A (f p) (effectiveness_score p))) cands"
proof -
  have all: "filter (\<lambda>(i, p). i < length (map f cands)) (enumerate 0 cands) = enumerate 0 cands"
    by (rule filter_True) (auto simp: enumerate_eq_zip dest: set_zip_leftD)
  show ?thesis
    unfolding vector_scores_in_def all
    by (rule nth_equalityI) (simp_all add: nth_enumerate_eq)
qed

lemma candidate_patterns_unfiltered:
  "truthy ptype = False \<Longrightarrow> truthy region = False
   \<Longrightarrow> candidate_patterns s ptype region = map snd (patterns s)"
  by (simp add: candidate_patterns_def)

lemma retrieve_in_ranked:
  assumes own: "scores_own_context L s query ptype region"
  shows "retrieve_relevant_patterns_in A L s query ptype region limit
         = slice_to limit (sort_key (\<lambda>p. - own_score A L s query p)
                             (candidate_patterns s ptype region))"
proof (cases "candidate_patterns s ptype region = []")
  case True
  then show ?thesis
    by (simp add: retrieve_relevant_patterns_in_def slice_to_Nil)
next
  case False
  then have ne: "patterns s \<noteq> []" by (auto simp: candidate_patterns_def)
  show ?thesis
  proof (cases "pattern_vectors s")
    case None
    with own have q: "str_split (str_lower query) \<noteq> []"
      by (simp add: scores_own_context_def)
    have sc: "own_score A L s query
              = (\<lambda>p. combined A (word_overlap A query (input_context p)) (effectiveness_score p))"
      by (rule ext) (simp add: own_score_def None)
    show ?thesis
      using False ne None
      by (simp add: retrieve_relevant_patterns_in_def text_scores_in_own[OF q] ranked_paired sc)
  next
    case (Some vecs)
    with own obtain v where v: "vectorizer s = Some v"
      and off: "truthy ptype = False" "truthy region = False"
      and sync: "vecs = map (\<lambda>(k, p). transform L v (input_context p)) (patterns s)"
      by (auto simp: scores_own_context_def split: option.splits)
    have c: "candidate_patterns s ptype region = map snd (patterns s)"
      by (rule candidate_patterns_unfiltered[OF off])
    have sims: "map (cosine L (transform L v query)) vecs
                = map (\<lambda>p. cosine L (transform L v query) (transform L v (input_context p)))
                    (candidate_patterns s ptype region)"
      by (simp add: sync c case_prod_unfold comp_def)
    have sc: "own_score A L s query
              = (\<lambda>p. combined A (cosine L (transform L v query) (transform L v (input_context p)))
                                (effectiveness_score p))"
      by (rule ext) (simp add: own_score_def Some v)
    have "retrieve_relevant_patterns_in A L s query ptype region limit
          = map fst (slice_to limit (sort_desc
              (vector_scores_in A (map (cosine L (transform L v query)) vecs)
                 (candidate_patterns s ptype region))))"
      using False ne Some v by (simp add: retrieve_relevant_patterns_in_def)
    also have "\<dots> = slice_to limit (sort_key (\<lambda>p. - own_score A L s query p)
                                       (candidate_patterns s ptype region))"
      unfolding sims vector_scores_in_synced ranked_paired sc ..
    finally show ?thesis .
  qed
qed

lemma ranking_sorted:
  "sorted (rev (map f (sort_key (\<lambda>p. - (f p :: real)) ps)))"
proof -
  have "sorted (map (\<lambda>p. - f p) (sort_key (\<lambda>p. - f p) ps))"
    by (rule sorted_sort_key)
  then have "sorted (map uminus (map f (sort_key (\<lambda>p. - f p) ps)))"
    by (simp add: comp_def)
  then show ?thesis by (simp only: sorted_uminus_rev)
qed

lemma ranking_stable:
  "filter (\<lambda>p. f p = c) (sort_key (\<lambda>p. - (f p :: real)) ps) = filter (\<lambda>p. f p = c) ps"
  using sort_key_stable[of "\<lambda>p. - f p" "- c" ps] by simp

lemma slice_to_sorted:
  assumes "sorted (rev (map (f :: 'a \<Rightarrow> real) ys))"
  shows "sorted (rev (map f (slice_to n ys)))"
  using sorted_rev_slice[OF assms] by (simp add: slice_to_def take_map)

lemma slice_to_all: "length xs \<le> n \<Longrightarrow> slice_to (int n) xs = xs"
  by (simp add: slice_to_def)

text \<open>
  C7, as the claim states it, fails: two candidates of equal combined score 0.97
  come back in the order of the store, the one with \<open>usage_count\<close> 1 before the
  one with \<open>usage_count\<close> 5. (The two have the same text and the same
  effectiveness, so that their scores are equal in any arithmetic.)
\<close>

theorem ranking_ties_counterexample:
  "map (\<lambda>p. (lp_id p, usage_count p, own_score real_arith exact_lib tied_store ''hello world'' p))
     (retrieve_relevant_patterns_in real_arith exact_lib tied_store ''hello world'' None None 5)
   = [(''A'', 1, 0.97), (''B'', 5, 0.97)]"
  by (simp add: retrieve_relevant_patterns_in_def candidate_patterns_def vector_scores_in_def
      sort_desc_def slice_to_def enumerate_eq_zip tied_store_def tied_pattern_def
      empty_adapter_def exact_lib_def exact_cosine_def exact_transform_def own_score_def
      real_arith_def)

text \<open>
  C7, amended. Let the retrieval score every candidate on its own context (the
  ranking by word overlap for a query with a word, or the ranking by the index
  without filters over the vectors of the current store), in whatever arithmetic
  the scores are evaluated. Then \<open>retrieve_relevant_patterns\<close> returns the slice
  \<open>[:limit]\<close> of the full ranking of the candidates (what it returns for a limit
  of the number of stored patterns); the full ranking and the
  returned list are sorted by non-increasing combined score; and the candidates
  of any one combined score stand in the full ranking in the order in which the
  store holds them.
\<close>

theorem ranking_order:
  assumes "scores_own_context L s query ptype region"
  shows "(let full = retrieve_relevant_patterns_in A L s query ptype region (int (length (patterns s)))
          in retrieve_relevant_patterns_in A L s query ptype region limit = slice_to limit full
           \<and> sorted (rev (map (own_score A L s query) full))
           \<and> sorted (rev (map (own_score A L s query)
                              (retrieve_relevant_patterns_in A L s query ptype region limit)))
           \<and> filter (\<lambda>p. own_score A L s query p = c) full
               = filter (\<lambda>p. own_score A L s query p = c) (candidate_patterns s ptype region))"
proof -
  let ?ranked = "sort_key (\<lambda>p. - own_score A L s query p) (candidate_patterns s ptype region)"
  have "length ?ranked \<le> length (patterns s)"
    by (simp add: candidate_patterns_def)
  then have full: "retrieve_relevant_patterns_in A L s query ptype region (int (length (patterns s)))
                   = ?ranked"
    by (simp only: retrieve_in_ranked[OF assms] slice_to_all)
  have lim: "retrieve_relevant_patterns_in A L s query ptype region limit = slice_to limit ?ranked"
    by (rule retrieve_in_ranked[OF assms])
  show ?thesis
    unfolding Let_def full lim
    using ranking_sorted[of "own_score A L s query" "candidate_patterns s ptype region"]
    by (simp add: ranking_stable slice_to_sorted)
qed

theorem ranking_order_witness:
  "scores_own_context exact_lib tied_store ''hello world'' None None
   \<and> map lp_id (filter (\<lambda>p. own_score real_arith exact_lib tied_store ''hello world'' p = 0.97)
                  (candidate_patterns tied_store None None)) = [''A'', ''B'']
   \<and> (let full = retrieve_relevant_patterns_in real_arith exact_lib tied_store ''hello world''
                     None None (int (length (patterns tied_store)))
        in retrieve_relevant_patterns_in real_arith exact_lib tied_store ''hello world'' None None 1
             = slice_to 1 full
         \<and> sorted (rev (map (own_score real_arith exact_lib tied_store ''hello world'') full))
         \<and> sorted (rev (map (own_score real_arith exact_lib tied_store ''hello world'')
                (retrieve_relevant_patterns_in real_arith exact_lib tied_store ''hello world''
                   None None 1)))
         \<and> filter (\<lambda>p. own_score real_arith exact_lib tied_store ''hello world'' p = 0.97) full
             = filter (\<lambda>p. own_score real_arith exact_lib tied_store ''hello world'' p = 0.97)
                 (candidate_patterns tied_store None None))
   \<and> scores_own_context exact_lib old_store ''Hello there world'' None None
   \<and> map lp_id (filter (\<lambda>p. own_score real_arith exact_lib old_store ''Hello there world'' p
                              = 44 / 75)
                  (retrieve_relevant_patterns_in real_arith exact_lib old_store
                     ''Hello there world'' None None (int (length (patterns old_store)))))
       = [''p1'', ''p5'']"
proof -
  have h1: "scores_own_context exact_lib tied_store ''hello world'' None None"
    by (simp add: scores_own_context_def tied_store_def tied_pattern_def empty_adapter_def
        exact_lib_def exact_transform_def)
  have t1: "map lp_id (filter (\<lambda>p. own_score real_arith exact_lib tied_store ''hello world'' p = 0.97)
                  (candidate_patterns tied_store None None)) = [''A'', ''B'']"
    by (simp add: candidate_patterns_def tied_store_def tied_pattern_def empty_adapter_def
        exact_lib_def exact_cosine_def exact_transform_def own_score_def real_arith_def)
  have split: "str_split (str_lower ''Hello there world'') = [''hello'', ''there'', ''world'']"
    "str_split (str_lower ''hello world'') = [''hello'', ''world'']"
    by code_simp+
  have h2: "scores_own_context exact_lib old_store ''Hello there world'' None None"
    by (simp add: scores_own_context_def old_store_def empty_adapter_def split)
  have cards: "card (set [''hello'', ''there'', ''world''] \<inter> set [''hello'', ''world'']) = 2"
    "card (set [''hello'', ''there'', ''world''] \<union> set [''hello'', ''world'']) = 3"
    by code_simp+
  have wo: "word_overlap real_arith ''Hello there world'' ''hello world'' = 2 / 3"
    by (simp only: word_overlap_def split cards real_arith_word_ratio)
  have t2: "map lp_id (filter (\<lambda>p. own_score real_arith exact_lib old_store ''Hello there world'' p
                              = 44 / 75)
                  (candidate_patterns old_store None None)) = [''p1'', ''p5'']"
    by (simp add: candidate_patterns_def old_store_def old_pattern_def empty_adapter_def
        own_score_def wo real_arith_combined)
  note r1 = ranking_order [OF h1, of real_arith 1 "0.97"]
  note r2 = ranking_order [OF h2, of real_arith 1 "44 / 75"]
  from r2 t2 have t2': "map lp_id (filter (\<lambda>p. own_score real_arith exact_lib old_store
                              ''Hello there world'' p = 44 / 75)
                  (retrieve_relevant_patterns_in real_arith exact_lib old_store
                     ''Hello there world'' None None (int (length (patterns old_store)))))
       = [''p1'', ''p5'']"
    by (simp add: Let_def)
  from h1 t1 r1 h2 t2' show ?thesis by blast
qed

text \<open>
  C1. With a filter that drops a stored pattern, the code departs from the ranking
  the claim describes. The store holds A (conversation, "alpha"), B (tool_usage,
  "beta") and C (tool_usage, "gamma"), all of effectiveness 0.9, and the index
  built by the third \<open>learn_from_interaction\<close>. The query "beta" with
  \<open>pattern_type = tool_usage\<close> has the candidates B and C, but the loop scores
  them with the similarities of rows 0 and 1 of the index, those of A and B: C is
  returned first, where the ranking by each candidate's own \<open>input_context\<close>
  puts B first.
\<close>

theorem filtered_ranking_misaligned:
  "map lp_id (retrieve_relevant_patterns exact_lib indexed_store ''beta'' (Some ''tool_usage'') None 5)
     = [''C'', ''B'']
   \<and> map lp_id (specified_ranking exact_lib indexed_store ''beta'' (Some ''tool_usage'') None 5)
     = [''B'', ''C'']
   \<and> map (\<lambda>(k, p). (k, pattern_type p, input_context p)) (patterns indexed_store)
     = [(''A'', ''conversation'', ''alpha''), (''B'', ''tool_usage'', ''beta''),
        (''C'', ''tool_usage'', ''gamma'')]"
  by (simp add: learn_from_interaction_def find_similar_pattern_def
      calculate_text_similarity_def exact_lib_def exact_cosine_def exact_fit_def
      exact_transform_def empty_adapter_def update_vectorizer_def update_pattern_vectors_def
      retrieve_relevant_patterns_def candidate_patterns_def vector_scores_def sort_desc_def
      slice_to_def enumerate_eq_zip
      indexed_store_def specified_ranking_def)

text \<open>Without filters, and with the pattern vectors of the current store, the code
  computes the specified ranking.\<close>

lemma vector_scores_synced:
  "vector_scores (map f cands) cands
   = map (\<lambda>p. (p, f p * 0.7 + effectiveness_score p * 0.3)) cands"
proof -
  have all: "filter (\<lambda>(i, p). i < length (map f cands)) (enumerate 0 cands) = enumerate 0 cands"
    by (rule filter_True) (auto simp: enumerate_eq_zip dest: set_zip_leftD)
  show ?thesis
    unfolding vector_scores_def all
    by (rule nth_equalityI) (simp_all add: nth_enumerate_eq)
qed

lemma retrieve_unfiltered_synced:
  assumes "vectorizer s = Some v"
    and "pattern_vectors s = Some (map (\<lambda>(k, p). transform L v (input_context p)) (patterns s))"
  shows "retrieve_relevant_patterns L s query None None limit
         = specified_ranking L s query None None limit"
proof -
  have c: "candidate_patterns s None None = map snd (patterns s)"
    by (simp add: candidate_patterns_def)
  have v: "map (cosine L (transform L v query))
             (map (\<lambda>(k, p). transform L v (input_context p)) (patterns s))
           = map (\<lambda>p. cosine L (transform L v query) (transform L v (input_context p)))
               (map snd (patterns s))"
    by (simp add: case_prod_unfold comp_def)
  have sc: "vector_scores
              (map (cosine L (transform L v query))
                 (map (\<lambda>(k, p). transform L v (input_context p)) (patterns s)))
              (map snd (patterns s))
            = map (\<lambda>p. (p, cosine L (transform L v query) (transform L v (input_context p)) * 0.7
                           + effectiveness_score p * 0.3))
                (map snd (patterns s))"
    unfolding v by (rule vector_scores_synced)
  show ?thesis
    using assms sc
    by (simp add: retrieve_relevant_patterns_def specified_ranking_def c
        Let_def slice_to_Nil sort_desc_def)
qed

section \<open>The bound on the conversation history\<close>

lemma lastn_snoc:
  assumes "0 < n"
  shows "lastn n (lastn n xs @ [e]) = lastn n (xs @ [e])"
proof (cases "length xs < n")
  case True
  then show ?thesis by (simp add: lastn_def)
next
  case False
  then have "Suc (length xs) - n = Suc (length xs - n)" "length xs - (length xs - n) = n"
    using assms by simp_all
  then show ?thesis using assms False by (simp add: lastn_def)
qed

lemma add_history_positive:
  assumes "0 < max_conversation_history mgr"
  shows "conversation_history (add_to_conversation_history mgr now ctx r c)
         = lastn (nat (max_conversation_history mgr))
             (conversation_history ctx @ [entry_of ctx (r, c, now)])"
  using assms
  by (auto simp: add_to_conversation_history_def Let_def slice_from_def lastn_def entry_of_def
      max_def nat_diff_distrib nat_add_distrib)

lemma add_history_region:
  "ctx_brain_region (add_to_conversation_history mgr now ctx r c) = ctx_brain_region ctx"
  by (simp add: add_to_conversation_history_def Let_def)

lemma append_all_region: "ctx_brain_region (append_all mgr ctx es) = ctx_brain_region ctx"
  unfolding append_all_def
  by (induction es rule: rev_induct) (auto simp: add_history_region)

lemma append_all_history:
  assumes "0 < max_conversation_history mgr" and "es \<noteq> []"
  shows "conversation_history (append_all mgr ctx es)
         = lastn (nat (max_conversation_history mgr))
             (conversation_history ctx @ map (entry_of ctx) es)"
  using assms(2)
proof (induction es rule: rev_induct)
  case Nil
  then show ?case by simp
next
  case (snoc e es)
  obtain r c now where e: "e = (r, c, now)" by (cases e)
  have reg: "entry_of (append_all mgr ctx es) e = entry_of ctx e"
    by (simp add: entry_of_def append_all_region)
  have "conversation_history (append_all mgr ctx (es @ [e]))
        = conversation_history (add_to_conversation_history mgr now (append_all mgr ctx es) r c)"
    by (simp add: append_all_def e)
  also have "\<dots> = lastn (nat (max_conversation_history mgr))
                    (conversation_history (append_all mgr ctx es) @ [entry_of ctx e])"
    using add_history_positive[OF assms(1)] reg e by simp
  also have "\<dots> = lastn (nat (max_conversation_history mgr))
                    (conversation_history ctx @ map (entry_of ctx) (es @ [e]))"
  proof (cases "es = []")
    case True
    then show ?thesis by (simp add: append_all_def)
  next
    case False
    with snoc.IH assms(1) show ?thesis by (simp add: lastn_snoc)
  qed
  finally show ?case .
qed

lemma history_bound_positive:
  assumes "0 < max_conversation_history mgr"
    and "int (length es) = max_conversation_history mgr + int k"
  shows "conversation_history (append_all mgr ctx es) = map (entry_of ctx) (drop k es)
       \<and> int (length (conversation_history (append_all mgr ctx es))) = max_conversation_history mgr"
proof -
  from assms have ne: "es \<noteq> []" by auto
  have len: "length es = nat (max_conversation_history mgr) + k"
    using assms by linarith
  have "conversation_history (append_all mgr ctx es)
        = lastn (nat (max_conversation_history mgr))
            (conversation_history ctx @ map (entry_of ctx) es)"
    by (rule append_all_history[OF assms(1) ne])
  also have "\<dots> = map (entry_of ctx) (drop k es)"
    using len by (simp add: lastn_def drop_map)
  finally have eq: "conversation_history (append_all mgr ctx es) = map (entry_of ctx) (drop k es)" .
  with len assms(1) show ?thesis by simp
qed

text \<open>
  C8. For a positive \<open>max_conversation_history\<close> the claim holds
  (\<open>history_bound_positive\<close>): after \<open>max_conversation_history + k\<close> appended
  messages the history is exactly the last \<open>max_conversation_history\<close> of them, in
  order. With \<open>max_conversation_history = 0\<close> the trimming statement
  \<open>history[-0:]\<close> keeps the whole list: after \<open>0 + 2\<close> appended messages the
  history holds both, where the claim gives it length 0.
\<close>

theorem history_unbounded_at_zero:
  "max_conversation_history (init_manager 3600 0 ''FRONTAL_LOBE'') = 0
   \<and> map msg_content (conversation_history
         (append_all (init_manager 3600 0 ''FRONTAL_LOBE'') blank_context
            [(''user'', ''one'', 1), (''user'', ''two'', 2)]))
     = [''one'', ''two'']"
  by (simp add: init_manager_def append_all_def add_to_conversation_history_def blank_context_def
      slice_from_def)

section \<open>Completion of a flow\<close>

lemma flow_step_frame:
  assumes "execute_flow_step py_str mgr now ctx flow st message = (ctx', r)"
  shows "current_state ctx' = current_state ctx \<and> current_flow ctx' = current_flow ctx
       \<and> ctx_brain_region ctx' = ctx_brain_region ctx
       \<and> (flow_variables ctx' = flow_variables ctx
          \<or> (step_type st = Some ''input_collection''
             \<and> flow_variables ctx'
                 = AList.update (get_or (step_data st) ''variable'' ''user_input'') (PStr message)
                     (flow_variables ctx)))"
  using assms
  by (auto simp: execute_flow_step_def execute_message_step_def execute_memory_step_def
      execute_agent_step_def execute_condition_step_def execute_input_step_def
      add_to_conversation_history_def Let_def
      split: if_splits option.splits)

lemma increment_step_frame:
  assumes "increment_step ctx = Inr ctx'"
  shows "\<exists>v. map_of (flow_variables ctx) ''current_step'' = Some v
             \<and> (case v of PInt n \<Rightarrow> flow_variables ctx'
                               = AList.update ''current_step'' (PInt (n + 1)) (flow_variables ctx)
                         | PFloat f \<Rightarrow> True | _ \<Rightarrow> False)
       \<and> current_state ctx' = current_state ctx \<and> current_flow ctx' = current_flow ctx
       \<and> ctx_brain_region ctx' = ctx_brain_region ctx"
  using assms
  by (auto simp: increment_step_def split: option.splits pyval.splits)


lemma run_step_advance:
  assumes run: "run_step py_str mgr now ctx flow st message = (ctx', r)"
    and fin: "step_completed r = Some True"
    and cs: "map_of (flow_variables ctx) ''current_step'' = Some (PInt n)"
    and st: "map_of (flow_variables ctx) ''flow_start_time'' = Some (PTime t0)"
    and keeps: "\<not> (step_type st = Some ''input_collection''
                  \<and> get_or (step_data st) ''variable'' ''user_input'' = ''flow_start_time'')"
  shows "map_of (flow_variables ctx') ''current_step'' = Some (PInt (n + 1))
       \<and> map_of (flow_variables ctx') ''flow_start_time'' = Some (PTime t0)
       \<and> current_state ctx' = current_state ctx \<and> current_flow ctx' = current_flow ctx
       \<and> ctx_brain_region ctx' = ctx_brain_region ctx"
proof -
  obtain c1 r1 where ex: "execute_flow_step py_str mgr now ctx flow st message = (c1, r1)"
    by (cases "execute_flow_step py_str mgr now ctx flow st message")
  have r1: "step_completed r1 = Some True"
  proof (rule ccontr)
    assume "step_completed r1 \<noteq> Some True"
    with run ex have "r = r1" by (simp add: run_step_def)
    with fin \<open>step_completed r1 \<noteq> Some True\<close> show False by simp
  qed
  obtain c2 where inc: "increment_step c1 = Inr c2"
  proof (cases "increment_step c1")
    case (Inl e)
    with run ex r1 have "r = error_result e" by (simp add: run_step_def)
    with fin show ?thesis by (simp add: error_result_def no_result_def)
  next
    case (Inr c)
    then show ?thesis using that by blast
  qed
  from run ex r1 inc have ctx': "ctx' = c2" by (simp add: run_step_def)
  note fr = flow_step_frame[OF ex]
  note ifr = increment_step_frame[OF inc]
  from fr have fv1: "map_of (flow_variables c1) ''current_step'' = Some (PInt n)
                   \<and> map_of (flow_variables c1) ''flow_start_time'' = Some (PTime t0)"
  proof (elim conjE disjE)
    assume "flow_variables c1 = flow_variables ctx"
    with cs st show ?thesis by simp
  next
    assume a: "step_type st = Some ''input_collection''"
      and b: "flow_variables c1
                 = AList.update (get_or (step_data st) ''variable'' ''user_input'') (PStr message)
                     (flow_variables ctx)"
    let ?v = "get_or (step_data st) ''variable'' ''user_input''"
    from a keeps have v1: "?v \<noteq> ''flow_start_time''" by simp
    have v2: "?v \<noteq> ''current_step''"
    proof
      assume "?v = ''current_step''"
      with b have "map_of (flow_variables c1) ''current_step'' = Some (PStr message)"
        by (simp add: update_conv')
      with inc show False by (simp add: increment_step_def)
    qed
    from b v1 v2 cs st show ?thesis by (simp add: update_conv')
  qed
  with ifr have "flow_variables c2
                 = AList.update ''current_step'' (PInt (n + 1)) (flow_variables c1)"
    by auto
  with fv1 fr ifr ctx' show ?thesis by (simp add: update_conv')
qed


lemma primed_present:
  "map_of fv ''current_step'' = Some v \<Longrightarrow> primed now fv = fv"
  by (auto simp: primed_def dest: map_of_SomeD weak_map_of_SomeI intro: rev_image_eqI)

lemma execute_flow_unfold:
  assumes flow: "map_of (flows mgr) fid = Some flow"
    and cs: "map_of (primed now (flow_variables ctx)) ''current_step'' = Some (PInt (int j))"
  shows "execute_conversation_flow py_str mgr now ctx fid message
         = (if length (steps flow) \<le> j
            then complete_flow now
                   (ctx\<lparr>current_flow := Some fid, flow_type := Some (cf_flow_type flow),
                        current_state := FLOW_EXECUTION,
                        flow_variables := primed now (flow_variables ctx)\<rparr>) flow
            else run_step py_str mgr now
                   (ctx\<lparr>current_flow := Some fid, flow_type := Some (cf_flow_type flow),
                        current_state := FLOW_EXECUTION,
                        flow_variables := primed now (flow_variables ctx)\<rparr>) flow
                   (steps flow ! j) message)"
proof (cases "''current_step'' \<in> fst ` set (flow_variables ctx)")
  case True
  then have p: "primed now (flow_variables ctx) = flow_variables ctx"
    by (simp add: primed_def)
  from cs have c: "map_of (flow_variables ctx) ''current_step'' = Some (PInt (int j))"
    by (simp only: p)
  show ?thesis
    unfolding p using flow True c
    by (simp add: execute_conversation_flow_def Let_def)
next
  case False
  then have p: "primed now (flow_variables ctx)
                = AList.update ''flow_start_time'' (PTime now)
                    (AList.update ''current_step'' (PInt 0) (flow_variables ctx))"
    by (simp add: primed_def)
  from cs have j0: "j = 0" by (simp add: p update_conv')
  show ?thesis
    unfolding p using flow False j0
    by (simp add: execute_conversation_flow_def Let_def update_conv')
qed

lemma execute_flow_advance:
  assumes flow: "map_of (flows mgr) fid = Some flow"
    and cs: "map_of (primed now (flow_variables ctx)) ''current_step'' = Some (PInt (int j))"
    and j: "j < length (steps flow)"
    and st: "map_of (primed now (flow_variables ctx)) ''flow_start_time'' = Some (PTime t0)"
    and fin: "step_completed (snd (execute_conversation_flow py_str mgr now ctx fid message)) = Some True"
    and keeps: "keeps_start_time flow"
  shows "map_of (flow_variables (fst (execute_conversation_flow py_str mgr now ctx fid message)))
           ''current_step'' = Some (PInt (int (Suc j)))
       \<and> map_of (flow_variables (fst (execute_conversation_flow py_str mgr now ctx fid message)))
           ''flow_start_time'' = Some (PTime t0)
       \<and> current_state (fst (execute_conversation_flow py_str mgr now ctx fid message)) = FLOW_EXECUTION
       \<and> current_flow (fst (execute_conversation_flow py_str mgr now ctx fid message)) = Some fid
       \<and> ctx_brain_region (fst (execute_conversation_flow py_str mgr now ctx fid message))
           = ctx_brain_region ctx"
proof -
  define ctx2 where "ctx2 = ctx\<lparr>current_flow := Some fid, flow_type := Some (cf_flow_type flow),
                          current_state := FLOW_EXECUTION,
                          flow_variables := primed now (flow_variables ctx)\<rparr>"
  have ex: "execute_conversation_flow py_str mgr now ctx fid message
            = run_step py_str mgr now ctx2 flow (steps flow ! j) message"
    using execute_flow_unfold[OF flow cs, of py_str message] j by (simp add: ctx2_def)
  obtain c r where run: "run_step py_str mgr now ctx2 flow (steps flow ! j) message = (c, r)"
    by (cases "run_step py_str mgr now ctx2 flow (steps flow ! j) message")
  from fin ex run have r: "step_completed r = Some True" by simp
  have k: "\<not> (step_type (steps flow ! j) = Some ''input_collection''
              \<and> get_or (step_data (steps flow ! j)) ''variable'' ''user_input'' = ''flow_start_time'')"
    using keeps j by (simp add: keeps_start_time_def list_all_length)
  have cs2: "map_of (flow_variables ctx2) ''current_step'' = Some (PInt (int j))"
    and st2: "map_of (flow_variables ctx2) ''flow_start_time'' = Some (PTime t0)"
    using cs st by (simp_all add: ctx2_def)
  from run_step_advance[OF run r cs2 st2 k] ex run show ?thesis
    by (simp add: ctx2_def)
qed

lemma execute_flow_complete:
  assumes flow: "map_of (flows mgr) fid = Some flow"
    and cs: "map_of (primed now (flow_variables ctx)) ''current_step''
               = Some (PInt (int (length (steps flow))))"
    and st: "map_of (primed now (flow_variables ctx)) ''flow_start_time'' = Some (PTime t0)"
  shows "current_state (fst (execute_conversation_flow py_str mgr now ctx fid message)) = COMPLETED
       \<and> current_flow (fst (execute_conversation_flow py_str mgr now ctx fid message)) = None
       \<and> map_of (flow_variables (fst (execute_conversation_flow py_str mgr now ctx fid message)))
           ''flow_duration'' = Some (PFloat (real_of_int (now - t0) / 1000000))"
proof -
  define ctx2 where "ctx2 = ctx\<lparr>current_flow := Some fid, flow_type := Some (cf_flow_type flow),
                          current_state := FLOW_EXECUTION,
                          flow_variables := primed now (flow_variables ctx)\<rparr>"
  have ex: "execute_conversation_flow py_str mgr now ctx fid message = complete_flow now ctx2 flow"
    using execute_flow_unfold[OF flow cs, of py_str message] by (simp add: ctx2_def)
  have st2: "map_of (flow_variables ctx2) ''flow_start_time'' = Some (PTime t0)"
    using st by (simp add: ctx2_def)
  show ?thesis
    unfolding ex using st2
    by (simp add: complete_flow_def Let_def update_conv')
qed


lemma determine_frame:
  assumes "ctx_brain_region c' = ctx_brain_region c" and "flow_variables c' = flow_variables c"
  shows "determine_conversation_flow mgr c' m = determine_conversation_flow mgr c m"
  using assms by (simp add: determine_conversation_flow_def flow_score_def)

lemma process_selected:
  assumes ses: "map_of (sessions mgr) sid = Some ctx"
    and sel: "selected mgr sid message = Some fid" and ne: "fid \<noteq> []"
  shows "process_message py_str mgr sid message ty now
         = (mgr\<lparr>sessions := modify sid
               (\<lambda>_. fst (execute_conversation_flow py_str mgr now
                            (add_to_conversation_history mgr now
                               (ctx\<lparr>current_state := PROCESSING, updated_at := now\<rparr>) ty message)
                            fid message))
               (sessions mgr)\<rparr>,
            snd (execute_conversation_flow py_str mgr now
                   (add_to_conversation_history mgr now
                      (ctx\<lparr>current_state := PROCESSING, updated_at := now\<rparr>) ty message)
                   fid message))"
proof -
  let ?c2 = "add_to_conversation_history mgr now
               (ctx\<lparr>current_state := PROCESSING, updated_at := now\<rparr>) ty message"
  have "determine_conversation_flow mgr ?c2 message = determine_conversation_flow mgr ctx message"
    by (rule determine_frame) (simp_all add: add_to_conversation_history_def Let_def)
  with sel ses have "fst (determine_conversation_flow mgr ?c2 message) = Some fid"
    by (simp add: selected_def)
  with ses ne show ?thesis
    by (simp add: process_message_def Let_def case_prod_unfold)
qed

lemma history_keeps_variables:
  "flow_variables (add_to_conversation_history mgr now c r m) = flow_variables c"
  "ctx_brain_region (add_to_conversation_history mgr now c r m) = ctx_brain_region c"
  by (simp_all add: add_to_conversation_history_def Let_def)

lemma process_advance:
  assumes ses: "map_of (sessions mgr) sid = Some ctx"
    and sel: "selected mgr sid message = Some fid" and ne: "fid \<noteq> []"
    and flow: "map_of (flows mgr) fid = Some flow"
    and cs: "map_of (primed now (flow_variables ctx)) ''current_step'' = Some (PInt (int j))"
    and j: "j < length (steps flow)"
    and st: "map_of (primed now (flow_variables ctx)) ''flow_start_time'' = Some (PTime t0)"
    and fin: "step_completed (snd (process_message py_str mgr sid message ty now)) = Some True"
    and keeps: "keeps_start_time flow"
  shows "\<exists>ctx'. map_of (sessions (fst (process_message py_str mgr sid message ty now))) sid = Some ctx'
          \<and> map_of (flow_variables ctx') ''current_step'' = Some (PInt (int (Suc j)))
          \<and> map_of (flow_variables ctx') ''flow_start_time'' = Some (PTime t0)
          \<and> current_state ctx' = FLOW_EXECUTION \<and> current_flow ctx' = Some fid"
    and "flows (fst (process_message py_str mgr sid message ty now)) = flows mgr"
proof -
  let ?c2 = "add_to_conversation_history mgr now
               (ctx\<lparr>current_state := PROCESSING, updated_at := now\<rparr>) ty message"
  note pm = process_selected[OF ses sel ne, of py_str ty now]
  have cs2: "map_of (primed now (flow_variables ?c2)) ''current_step'' = Some (PInt (int j))"
    and st2: "map_of (primed now (flow_variables ?c2)) ''flow_start_time'' = Some (PTime t0)"
    using cs st by (simp_all add: history_keeps_variables)
  have fin2: "step_completed (snd (execute_conversation_flow py_str mgr now ?c2 fid message)) = Some True"
    using fin by (simp add: pm)
  note adv = execute_flow_advance[OF flow cs2 j st2 fin2 keeps]
  have "map_of (sessions (fst (process_message py_str mgr sid message ty now))) sid
        = Some (fst (execute_conversation_flow py_str mgr now ?c2 fid message))"
    using ses by (simp add: pm map_of_modify)
  with adv show "\<exists>ctx'. map_of (sessions (fst (process_message py_str mgr sid message ty now))) sid = Some ctx'
          \<and> map_of (flow_variables ctx') ''current_step'' = Some (PInt (int (Suc j)))
          \<and> map_of (flow_variables ctx') ''flow_start_time'' = Some (PTime t0)
          \<and> current_state ctx' = FLOW_EXECUTION \<and> current_flow ctx' = Some fid"
    by simp
  show "flows (fst (process_message py_str mgr sid message ty now)) = flows mgr"
    by (simp add: pm)
qed

lemma process_complete:
  assumes ses: "map_of (sessions mgr) sid = Some ctx"
    and sel: "selected mgr sid message = Some fid" and ne: "fid \<noteq> []"
    and flow: "map_of (flows mgr) fid = Some flow"
    and cs: "map_of (primed now (flow_variables ctx)) ''current_step''
               = Some (PInt (int (length (steps flow))))"
    and st: "map_of (primed now (flow_variables ctx)) ''flow_start_time'' = Some (PTime t0)"
  shows "\<exists>ctx'. map_of (sessions (fst (process_message py_str mgr sid message ty now))) sid = Some ctx'
          \<and> current_state ctx' = COMPLETED \<and> current_flow ctx' = None
          \<and> map_of (flow_variables ctx') ''flow_duration''
              = Some (PFloat (real_of_int (now - t0) / 1000000))"
proof -
  let ?c2 = "add_to_conversation_history mgr now
               (ctx\<lparr>current_state := PROCESSING, updated_at := now\<rparr>) ty message"
  note pm = process_selected[OF ses sel ne, of py_str ty now]
  have cs2: "map_of (primed now (flow_variables ?c2)) ''current_step''
               = Some (PInt (int (length (steps flow))))"
    and st2: "map_of (primed now (flow_variables ?c2)) ''flow_start_time'' = Some (PTime t0)"
    using cs st by (simp_all add: history_keeps_variables)
  note fin = execute_flow_complete[OF flow cs2 st2, of py_str message]
  have "map_of (sessions (fst (process_message py_str mgr sid message ty now))) sid
        = Some (fst (execute_conversation_flow py_str mgr now ?c2 fid message))"
    using ses by (simp add: pm map_of_modify)
  with fin show ?thesis by simp
qed


lemma flow_run_invariant:
  assumes flow: "map_of (flows mgr) fid = Some flow" and ne: "fid \<noteq> []"
    and keeps: "keeps_start_time flow"
    and ses: "map_of (sessions mgr) sid = Some ctx"
    and cs: "map_of (flow_variables ctx) ''current_step'' = Some (PInt (int j))"
    and st: "map_of (flow_variables ctx) ''flow_start_time'' = Some (PTime t0)"
    and len: "j + length calls \<le> length (steps flow)"
    and run: "flow_run py_str mgr sid fid calls"
    and exe: "current_state ctx = FLOW_EXECUTION \<and> current_flow ctx = Some fid"
  shows "\<exists>ctx'. map_of (sessions (fst (drive py_str mgr sid calls))) sid = Some ctx'
          \<and> map_of (flow_variables ctx') ''current_step'' = Some (PInt (int (j + length calls)))
          \<and> map_of (flow_variables ctx') ''flow_start_time'' = Some (PTime t0)
          \<and> current_state ctx' = FLOW_EXECUTION \<and> current_flow ctx' = Some fid
          \<and> flows (fst (drive py_str mgr sid calls)) = flows mgr"
  using flow ses cs st len run exe
proof (induction calls arbitrary: mgr ctx j)
  case Nil
  then show ?case by simp
next
  case (Cons call calls)
  obtain message ty now where call: "call = (message, ty, now)" by (cases call)
  let ?pm = "process_message py_str mgr sid message ty now"
  from Cons.prems(6) call have sel: "selected mgr sid message = Some fid"
    and fin: "step_completed (snd ?pm) = Some True"
    and rest: "flow_run py_str (fst ?pm) sid fid calls"
    by simp_all
  from Cons.prems(5) have j: "j < length (steps flow)" by simp
  have pr: "primed now (flow_variables ctx) = flow_variables ctx"
    by (rule primed_present[OF Cons.prems(3)])
  have cs': "map_of (primed now (flow_variables ctx)) ''current_step'' = Some (PInt (int j))"
    and st': "map_of (primed now (flow_variables ctx)) ''flow_start_time'' = Some (PTime t0)"
    using Cons.prems(3,4) by (simp_all add: pr)
  from process_advance[OF Cons.prems(2) sel ne Cons.prems(1) cs' j st' fin keeps]
  obtain ctx1 where c1: "map_of (sessions (fst ?pm)) sid = Some ctx1"
      "map_of (flow_variables ctx1) ''current_step'' = Some (PInt (int (Suc j)))"
      "map_of (flow_variables ctx1) ''flow_start_time'' = Some (PTime t0)"
      "current_state ctx1 = FLOW_EXECUTION \<and> current_flow ctx1 = Some fid"
    and fl: "flows (fst ?pm) = flows mgr"
    by blast
  have flow1: "map_of (flows (fst ?pm)) fid = Some flow"
    using Cons.prems(1) fl by simp
  have len1: "Suc j + length calls \<le> length (steps flow)"
    using Cons.prems(5) by simp
  from Cons.IH[OF flow1 c1(1) c1(2) c1(3) len1 rest c1(4)] fl
  show ?case
    by (simp add: call case_prod_unfold)
qed

text \<open>
  C2, as the claim states it, fails. The flow \<open>simple_qa\<close> has one step. A new
  session whose one \<open>process_message\<close> call selects the flow and returns
  \<open>step_completed = True\<close> is left in the state \<open>flow_execution\<close>, with
  \<open>current_flow\<close> still set and no \<open>flow_duration\<close>: the flow is completed by
  the next call, which finds the step counter at the end of the step list.
\<close>

theorem flow_completion_counterexample:
  "length (steps qa_flow) = 1
   \<and> selected fresh_session ''s1'' ''what is this'' = Some ''simple_qa''
   \<and> map step_completed (snd (drive show_val fresh_session ''s1'' [(''what is this'', ''user'', 20)]))
       = [Some True]
   \<and> map_option (\<lambda>c. (current_state c, current_flow c, map_of (flow_variables c) ''flow_duration''))
        (map_of (sessions (fst (drive show_val fresh_session ''s1'' [(''what is this'', ''user'', 20)])))
           ''s1'')
       = Some (FLOW_EXECUTION, Some ''simple_qa'', None)"
  by code_simp

text \<open>
  C2, amended. Take a registered flow with N steps, none of which stores its input
  under \<open>flow_start_time\<close>, and a session whose flow variables hold no
  \<open>current_step\<close>. Let N calls of \<open>process_message\<close> each select the flow and
  return \<open>step_completed = True\<close>, and let one more call select the flow, the
  clock never running backwards. After that call the session has
  \<open>current_state = completed\<close>, \<open>current_flow = None\<close> and a non-negative
  \<open>flow_duration\<close> in its flow variables. When N is at least 1, the session
  after the N calls is in the state \<open>flow_execution\<close> with \<open>current_flow\<close> set to
  the flow.
\<close>

theorem flow_completion:
  assumes flow: "map_of (flows mgr) fid = Some flow" and ne: "fid \<noteq> []"
    and keeps: "keeps_start_time flow"
    and ses: "map_of (sessions mgr) sid = Some ctx"
    and fresh: "''current_step'' \<notin> fst ` set (flow_variables ctx)"
    and len: "length calls = length (steps flow)"
    and run: "flow_run py_str mgr sid fid calls"
    and sel: "selected (fst (drive py_str mgr sid calls)) sid message = Some fid"
    and clock: "sorted (map (\<lambda>c. snd (snd c)) (calls @ [(message, ty, now)]))"
  shows "(\<exists>ctx' d. map_of (sessions (fst (process_message py_str (fst (drive py_str mgr sid calls))
                                          sid message ty now))) sid = Some ctx'
            \<and> current_state ctx' = COMPLETED \<and> current_flow ctx' = None
            \<and> map_of (flow_variables ctx') ''flow_duration'' = Some (PFloat d) \<and> 0 \<le> d)
       \<and> (0 < length (steps flow)
            \<longrightarrow> (\<exists>ctxN. map_of (sessions (fst (drive py_str mgr sid calls))) sid = Some ctxN
                   \<and> current_state ctxN = FLOW_EXECUTION \<and> current_flow ctxN = Some fid))"
proof (cases calls)
  case Nil
  have cs: "map_of (primed now (flow_variables ctx)) ''current_step''
              = Some (PInt (int (length (steps flow))))"
    and st: "map_of (primed now (flow_variables ctx)) ''flow_start_time'' = Some (PTime now)"
    using fresh len Nil by (simp_all add: primed_def update_conv')
  from sel Nil have sel0: "selected mgr sid message = Some fid" by simp
  from len Nil have zero: "\<not> 0 < length (steps flow)" by simp
  from process_complete[OF ses sel0 ne flow cs st, of py_str ty] Nil zero
  show ?thesis by auto
next
  case (Cons call rest)
  obtain m1 ty1 t1 where call: "call = (m1, ty1, t1)" by (cases call)
  let ?pm = "process_message py_str mgr sid m1 ty1 t1"
  from run Cons call have sel1: "selected mgr sid m1 = Some fid"
    and fin1: "step_completed (snd ?pm) = Some True"
    and rest: "flow_run py_str (fst ?pm) sid fid rest"
    by simp_all
  have cs: "map_of (primed t1 (flow_variables ctx)) ''current_step'' = Some (PInt (int 0))"
    and st: "map_of (primed t1 (flow_variables ctx)) ''flow_start_time'' = Some (PTime t1)"
    using fresh by (simp_all add: primed_def update_conv')
  from len Cons have j: "0 < length (steps flow)" by auto
  from process_advance[OF ses sel1 ne flow cs j st fin1 keeps]
  obtain ctx1 where c1: "map_of (sessions (fst ?pm)) sid = Some ctx1"
      "map_of (flow_variables ctx1) ''current_step'' = Some (PInt (int (Suc 0)))"
      "map_of (flow_variables ctx1) ''flow_start_time'' = Some (PTime t1)"
      "current_state ctx1 = FLOW_EXECUTION \<and> current_flow ctx1 = Some fid"
    and fl: "flows (fst ?pm) = flows mgr"
    by blast
  have flow1: "map_of (flows (fst ?pm)) fid = Some flow" using flow fl by simp
  have len1: "Suc 0 + length rest \<le> length (steps flow)" using len Cons by simp
  have dr: "fst (drive py_str mgr sid calls) = fst (drive py_str (fst ?pm) sid rest)"
    by (simp add: Cons call case_prod_unfold)
  from flow_run_invariant[OF flow1 ne keeps c1(1) c1(2) c1(3) len1 rest c1(4)]
  obtain ctxN where cN: "map_of (sessions (fst (drive py_str mgr sid calls))) sid = Some ctxN"
      "map_of (flow_variables ctxN) ''current_step'' = Some (PInt (int (Suc 0 + length rest)))"
      "map_of (flow_variables ctxN) ''flow_start_time'' = Some (PTime t1)"
      "current_state ctxN = FLOW_EXECUTION" "current_flow ctxN = Some fid"
    and flN: "flows (fst (drive py_str mgr sid calls)) = flows mgr"
    unfolding dr using fl by auto
  have flowN: "map_of (flows (fst (drive py_str mgr sid calls))) fid = Some flow"
    using flow flN by simp
  have pr: "primed now (flow_variables ctxN) = flow_variables ctxN"
    by (rule primed_present[OF cN(2)])
  have csN: "map_of (primed now (flow_variables ctxN)) ''current_step''
               = Some (PInt (int (length (steps flow))))"
    and stN: "map_of (primed now (flow_variables ctxN)) ''flow_start_time'' = Some (PTime t1)"
    using cN(2,3) len Cons by (simp_all add: pr)
  from clock Cons call have "t1 \<le> now" by (simp add: sorted_append)
  then have nonneg: "0 \<le> real_of_int (now - t1) / 1000000" by simp
  from process_complete[OF cN(1) sel ne flowN csN stN, of py_str ty]
  obtain ctx' where fin: "map_of (sessions (fst (process_message py_str (fst (drive py_str mgr sid calls))
                                          sid message ty now))) sid = Some ctx'"
      "current_state ctx' = COMPLETED" "current_flow ctx' = None"
      "map_of (flow_variables ctx') ''flow_duration'' = Some (PFloat (real_of_int (now - t1) / 1000000))"
    by blast
  from fin nonneg have part1: "\<exists>ctx' d. map_of (sessions (fst (process_message py_str
                      (fst (drive py_str mgr sid calls)) sid message ty now))) sid = Some ctx'
            \<and> current_state ctx' = COMPLETED \<and> current_flow ctx' = None
            \<and> map_of (flow_variables ctx') ''flow_duration'' = Some (PFloat d) \<and> 0 \<le> d"
    by blast
  from cN(1,4,5) have part2: "\<exists>ctxN. map_of (sessions (fst (drive py_str mgr sid calls))) sid = Some ctxN
                   \<and> current_state ctxN = FLOW_EXECUTION \<and> current_flow ctxN = Some fid"
    by blast
  from part1 part2 show ?thesis by blast
qed

theorem flow_completion_witness:
  "map_of (flows fresh_session) ''simple_qa'' = Some qa_flow
   \<and> keeps_start_time qa_flow
   \<and> map_of (sessions fresh_session) ''s1'' = Some fresh_context
   \<and> ''current_step'' \<notin> fst ` set (flow_variables fresh_context)
   \<and> length [(''what is this'', ''user'', 20::int)] = length (steps qa_flow)
   \<and> flow_run show_val fresh_session ''s1'' ''simple_qa'' [(''what is this'', ''user'', 20)]
   \<and> selected (fst (drive show_val fresh_session ''s1'' [(''what is this'', ''user'', 20)])) ''s1''
         ''what else'' = Some ''simple_qa''
   \<and> sorted (map (\<lambda>c. snd (snd c)) ([(''what is this'', ''user'', 20::int)] @ [(''what else'', ''user'', 3000020)]))
   \<and> (\<exists>ctx' d. map_of (sessions (fst (process_message show_val
                      (fst (drive show_val fresh_session ''s1'' [(''what is this'', ''user'', 20)]))
                      ''s1'' ''what else'' ''user'' 3000020))) ''s1'' = Some ctx'
            \<and> current_state ctx' = COMPLETED \<and> current_flow ctx' = None
            \<and> map_of (flow_variables ctx') ''flow_duration'' = Some (PFloat d) \<and> 0 \<le> d)
   \<and> 0 < length (steps qa_flow)
   \<and> (\<exists>ctxN. map_of (sessions (fst (drive show_val fresh_session ''s1''
                      [(''what is this'', ''user'', 20)]))) ''s1'' = Some ctxN
            \<and> current_state ctxN = FLOW_EXECUTION \<and> current_flow ctxN = Some ''simple_qa'')"
proof -
  have h1: "map_of (flows fresh_session) ''simple_qa'' = Some qa_flow" by code_simp
  have h2: "''simple_qa'' \<noteq> []" by simp
  have h3: "keeps_start_time qa_flow" by code_simp
  have h4: "map_of (sessions fresh_session) ''s1'' = Some fresh_context" by code_simp
  have h5: "''current_step'' \<notin> fst ` set (flow_variables fresh_context)" by code_simp
  have h6: "length [(''what is this'', ''user'', 20::int)] = length (steps qa_flow)" by code_simp
  have h7: "flow_run show_val fresh_session ''s1'' ''simple_qa'' [(''what is this'', ''user'', 20)]"
    by code_simp
  have h8: "selected (fst (drive show_val fresh_session ''s1'' [(''what is this'', ''user'', 20)]))
              ''s1'' ''what else'' = Some ''simple_qa''" by code_simp
  have h9: "sorted (map (\<lambda>c. snd (snd c))
              ([(''what is this'', ''user'', 20::int)] @ [(''what else'', ''user'', 3000020)]))"
    by simp
  have h10: "0 < length (steps qa_flow)" by code_simp
  from flow_completion [OF h1 h2 h3 h4 h5 h6 h7 h8 h9] h1 h3 h4 h5 h6 h7 h8 h9 h10
  show ?thesis by blast
qed

end
